theory Spec2Isabelle
  imports Complex_Main "HOL-Library.Sublist"
begin

section \<open>Values of the page script\<close>

text \<open>
  The repository holds the page script in four variants: the script under \<^verbatim>\<open>docs/\<close> (unique
  events and catalog versions, one scatter plot), a robust variant (shape check in the
  loader, guarded element access, histogram, spin and timeline plots), a variant with the
  same separate plots and no checks, and the earliest one, which tags records by
  \<^verbatim>\<open>version\<close>. The embedding follows the script under \<^verbatim>\<open>docs/\<close> for the statistics, the
  scatter plot and the catalog selector, and the robust variant for the loader, the spin
  plot and the timeline; where another variant computes differently it is embedded next to
  them. The classification rule is the one the data schema document quotes.

  The page script works on what \<^verbatim>\<open>response.json()\<close> returns: a JSON value.
  Numbers are the finite values a JSON document can denote, taken as reals (the script only
  compares and clamps them). An object is the list of its properties, each name once (the
  parser keeps the last of a repeated name). A JavaScript value is a JSON value or
  \<^verbatim>\<open>undefined\<close>, the latter written \<open>None\<close>.
\<close>

datatype json =
    JNull
  | JBool bool
  | JNum real
  | JStr string
  | JArr "json list"
  | JObj "(string \<times> json) list"

type_synonym jsval = "json option"

text \<open>What the script can raise. \<open>InvalidDataFormat\<close> is
  \<^verbatim>\<open>new Error('Invalid data format')\<close>, \<open>HttpError\<close> is
  \<^verbatim>\<open>new Error(`HTTP error ${response.status}`)\<close>, \<open>LoadFailed\<close> is
  \<^verbatim>\<open>new Error('Failed to load data')\<close>.\<close>

datatype error =
    TypeError
  | SyntaxError
  | FetchRejected
  | HttpError nat
  | InvalidDataFormat
  | LoadFailed

definition bindE :: "error + 'a \<Rightarrow> ('a \<Rightarrow> error + 'b) \<Rightarrow> error + 'b" where
  "bindE m f = (case m of Inl e \<Rightarrow> Inl e | Inr v \<Rightarrow> f v)"

text \<open>\<open>field k v\<close> is \<^verbatim>\<open>v.k\<close> for a value \<open>v\<close> that is neither \<^verbatim>\<open>null\<close> nor
  \<^verbatim>\<open>undefined\<close>: the property of a parsed object, \<^verbatim>\<open>undefined\<close> when the object has none
  of that name or the value is a string, number, boolean or array (none of the names the
  script reads is inherited by those).\<close>

fun field :: "string \<Rightarrow> json \<Rightarrow> jsval" where
  "field k (JObj kvs) = map_of kvs k"
| "field k _ = None"

text \<open>\<^verbatim>\<open>v.k\<close> as the script evaluates it: a \<^verbatim>\<open>TypeError\<close> on \<^verbatim>\<open>null\<close> and
  \<^verbatim>\<open>undefined\<close>.\<close>

fun getprop :: "string \<Rightarrow> jsval \<Rightarrow> error + jsval" where
  "getprop k None = Inl TypeError"
| "getprop k (Some JNull) = Inl TypeError"
| "getprop k (Some v) = Inr (field k v)"

text \<open>\<^verbatim>\<open>ToBoolean\<close>: \<^verbatim>\<open>undefined\<close>, \<^verbatim>\<open>null\<close>, \<^verbatim>\<open>false\<close>, \<^verbatim>\<open>0\<close> and the empty
  string are falsy.\<close>

fun truthy :: "jsval \<Rightarrow> bool" where
  "truthy None = False"
| "truthy (Some JNull) = False"
| "truthy (Some (JBool b)) = b"
| "truthy (Some (JNum r)) = (r \<noteq> 0)"
| "truthy (Some (JStr s)) = (s \<noteq> [])"
| "truthy (Some (JArr _)) = True"
| "truthy (Some (JObj _)) = True"

text \<open>\<^verbatim>\<open>a || b\<close> on values.\<close>

definition js_or :: "jsval \<Rightarrow> jsval \<Rightarrow> jsval" where
  "js_or a b = (if truthy a then a else b)"

text \<open>
  Conversion to a primitive. A template literal (\<^verbatim>\<open>ToString\<close>), \<^verbatim>\<open>Math.min\<close>
  (\<^verbatim>\<open>ToNumber\<close>) and \<^verbatim>\<open>new Date(v)\<close> (\<^verbatim>\<open>ToPrimitive\<close>) first turn an object or array into
  a primitive by calling its \<^verbatim>\<open>valueOf\<close> and \<^verbatim>\<open>toString\<close> methods. A parsed object inherits
  both; an own property named \<^verbatim>\<open>toString\<close> (any JSON value, none is callable) hides the
  inherited method, the inherited \<^verbatim>\<open>valueOf\<close> returns the object itself, and the conversion
  raises a \<^verbatim>\<open>TypeError\<close>. An own \<^verbatim>\<open>valueOf\<close> alone does no harm, \<^verbatim>\<open>toString\<close> then
  answers. An array joins the conversions of its elements (\<^verbatim>\<open>null\<close> gives the empty
  string), so it raises when one of them does. Primitives and \<^verbatim>\<open>undefined\<close> always
  convert.
\<close>

fun convertible :: "json \<Rightarrow> bool" where
  "convertible (JArr xs) = list_all convertible xs"
| "convertible (JObj kvs) = (map_of kvs ''toString'' = None)"
| "convertible _ = True"

definition printable :: "jsval \<Rightarrow> bool" where
  "printable v = (case v of None \<Rightarrow> True | Some j \<Rightarrow> convertible j)"

text \<open>\<^verbatim>\<open>${v}\<close> inside a template literal: the value is kept as it is, the conversion to
  text being the host's; what matters here is whether it raises.\<close>

definition interpolate :: "jsval \<Rightarrow> error + jsval" where
  "interpolate v = (if printable v then Inr v else Inl TypeError)"

text \<open>\<^verbatim>\<open>xs.filter(p)\<close> and \<^verbatim>\<open>xs.map(f)\<close> with a callback that may raise: the first
  exception ends the traversal.\<close>

fun filterE :: "('a \<Rightarrow> error + bool) \<Rightarrow> 'a list \<Rightarrow> error + 'a list" where
  "filterE p [] = Inr []"
| "filterE p (x # xs) =
     bindE (p x) (\<lambda>b. bindE (filterE p xs) (\<lambda>ys. Inr (if b then x # ys else ys)))"

fun mapE :: "('a \<Rightarrow> error + 'b) \<Rightarrow> 'a list \<Rightarrow> error + 'b list" where
  "mapE f [] = Inr []"
| "mapE f (x # xs) = bindE (f x) (\<lambda>y. bindE (mapE f xs) (\<lambda>ys. Inr (y # ys)))"

text \<open>Using a value as an array: \<^verbatim>\<open>.filter\<close> and \<^verbatim>\<open>.map\<close> exist on arrays only, so the
  call raises a \<^verbatim>\<open>TypeError\<close> on anything else.\<close>

fun as_array :: "jsval \<Rightarrow> error + json list" where
  "as_array (Some (JArr xs)) = Inr xs"
| "as_array _ = Inl TypeError"


section \<open>Source classification\<close>

text \<open>
  The classification rule as the data schema documents it:
  \<^verbatim>\<open>
  NS_THRESHOLD = 3.0  # Solar masses
  if m2 < NS_THRESHOLD and m1 < NS_THRESHOLD:   source_type = "BNS"
  elif m2 < NS_THRESHOLD and m1 > NS_THRESHOLD: source_type = "NSBH"
  else:                                         source_type = "BBH"
  \<close>
\<close>

datatype source_type = BBH | NSBH | BNS

definition NS_THRESHOLD :: real where
  "NS_THRESHOLD = 3.0"

definition classify :: "real \<Rightarrow> real \<Rightarrow> source_type" where
  "classify m1 m2 =
     (if m2 < NS_THRESHOLD \<and> m1 < NS_THRESHOLD then BNS
      else if m2 < NS_THRESHOLD \<and> m1 > NS_THRESHOLD then NSBH
      else BBH)"

text \<open>The rule in the words of the specification: both components at or above the
  threshold give BBH, both below give BNS, anything else NSBH.\<close>

definition classify_spec :: "real \<Rightarrow> real \<Rightarrow> source_type" where
  "classify_spec m1 m2 =
     (if m1 \<ge> NS_THRESHOLD \<and> m2 \<ge> NS_THRESHOLD then BBH
      else if m1 < NS_THRESHOLD \<and> m2 < NS_THRESHOLD then BNS
      else NSBH)"


section \<open>Event sequences\<close>

text \<open>
  Every callback the script passes to \<^verbatim>\<open>filter\<close>, \<^verbatim>\<open>map\<close> and \<^verbatim>\<open>forEach\<close> starts by
  reading a property of its argument (\<^verbatim>\<open>e => e.source_type === 'BBH'\<close>,
  \<^verbatim>\<open>e => e.m1\<close>, ...). On \<^verbatim>\<open>null\<close> that read raises a \<^verbatim>\<open>TypeError\<close>; on any other
  element of a parsed array the callback computes its result from the element's fields.
\<close>

definition callback :: "(json \<Rightarrow> 'b) \<Rightarrow> json \<Rightarrow> error + 'b" where
  "callback f e = (if e = JNull then Inl TypeError else Inr (f e))"

text \<open>A callback that goes on to convert fields of its argument, which may raise too.\<close>

definition callbackE :: "(json \<Rightarrow> error + 'b) \<Rightarrow> json \<Rightarrow> error + 'b" where
  "callbackE f e = (if e = JNull then Inl TypeError else f e)"

text \<open>\<^verbatim>\<open>e.source_type === t\<close> for a string literal \<open>t\<close>: strict equality, so the field
  must be a string with exactly these characters.\<close>

definition has_type :: "string \<Rightarrow> json \<Rightarrow> bool" where
  "has_type t e = (field ''source_type'' e = Some (JStr t))"

subsection \<open>Statistics cards\<close>

text \<open>
  \<^verbatim>\<open>
  function updateStats(events) {
      const totalCount = events.length;
      const bbhCount = events.filter(e => e.source_type === 'BBH').length;
      const nsbhCount = events.filter(e => e.source_type === 'NSBH').length;
      const bnsCount = events.filter(e => e.source_type === 'BNS').length;
      ... textContent of totalEvents, bbhCount, nsbhCount, bnsCount ...
  }
  \<close>
\<close>

record stats =
  totalCount :: nat
  bbhCount :: nat
  nsbhCount :: nat
  bnsCount :: nat

definition updateStats :: "json list \<Rightarrow> error + stats" where
  "updateStats events =
     bindE (filterE (callback (has_type ''BBH'')) events) (\<lambda>bbh.
     bindE (filterE (callback (has_type ''NSBH'')) events) (\<lambda>nsbh.
     bindE (filterE (callback (has_type ''BNS'')) events) (\<lambda>bns.
       Inr \<lparr>totalCount = length events, bbhCount = length bbh,
            nsbhCount = length nsbh, bnsCount = length bns\<rparr>)))"

subsection \<open>Mass scatter plot\<close>

text \<open>
  \<^verbatim>\<open>Math.max(8, Math.min(25, e.snr || 10))\<close>. \<^verbatim>\<open>Math.min\<close> and \<^verbatim>\<open>Math.max\<close> convert
  their arguments with \<^verbatim>\<open>ToNumber\<close> and return \<^verbatim>\<open>NaN\<close> (here \<open>None\<close>) as soon as one
  argument is \<^verbatim>\<open>NaN\<close>. \<^verbatim>\<open>ToNumber\<close> of a string, array or object first converts to a
  primitive, which may raise, and then reads the text as a number, which is the host's
  conversion \<open>coerce\<close>.
\<close>

type_synonym jsnum = "real option"

fun numeric :: "(json \<Rightarrow> jsnum) \<Rightarrow> jsval \<Rightarrow> jsnum" where
  "numeric coerce None = None"
| "numeric coerce (Some JNull) = Some 0"
| "numeric coerce (Some (JBool b)) = Some (if b then 1 else 0)"
| "numeric coerce (Some (JNum r)) = Some r"
| "numeric coerce (Some v) = coerce v"

definition to_number :: "(json \<Rightarrow> jsnum) \<Rightarrow> jsval \<Rightarrow> error + jsnum" where
  "to_number coerce v = (if printable v then Inr (numeric coerce v) else Inl TypeError)"

fun math_min :: "jsnum \<Rightarrow> jsnum \<Rightarrow> jsnum" where
  "math_min (Some a) (Some b) = Some (min a b)"
| "math_min _ _ = None"

fun math_max :: "jsnum \<Rightarrow> jsnum \<Rightarrow> jsnum" where
  "math_max (Some a) (Some b) = Some (max a b)"
| "math_max _ _ = None"

definition marker_size :: "(json \<Rightarrow> jsnum) \<Rightarrow> json \<Rightarrow> error + jsnum" where
  "marker_size coerce e =
     bindE (to_number coerce (js_or (field ''snr'' e) (Some (JNum 10)))) (\<lambda>n.
       Inr (math_max (Some 8) (math_min (Some 25) n)))"

text \<open>
  The hover text is a template string; it is kept as the list of the values it
  interpolates, each under the label the template prints before it. The last three lines
  are present only for a truthy value. Building the text converts every value in it.
\<close>

type_synonym hover = "(string \<times> jsval) list"

definition optional_line :: "string \<Rightarrow> jsval \<Rightarrow> hover" where
  "optional_line label v = (if truthy v then [(label, v)] else [])"

definition hover_lines :: "json \<Rightarrow> hover" where
  "hover_lines e =
     [(''name'', field ''name'' e),
      (''M1'', field ''m1'' e),
      (''M2'', field ''m2'' e),
      (''SNR'', js_or (field ''snr'' e) (Some (JStr ''N/A''))),
      (''Type'', field ''source_type'' e),
      (''Date'', field ''detection_date'' e)]
     @ optional_line ''Distance'' (field ''luminosity_distance'' e)
     @ optional_line ''Final Mass'' (field ''final_mass_source'' e)
     @ optional_line ''Final Spin'' (field ''final_spin'' e)"

fun template :: "hover \<Rightarrow> error + hover" where
  "template [] = Inr []"
| "template ((label, v) # rest) =
     bindE (interpolate v) (\<lambda>s. bindE (template rest) (\<lambda>others. Inr ((label, s) # others)))"

definition hover_text :: "json \<Rightarrow> error + hover" where
  "hover_text e = template (hover_lines e)"

text \<open>
  \<^verbatim>\<open>
  function createTrace(events, name, color) {
      return { x: events.map(e => e.m1), y: events.map(e => e.m2),
               mode: 'markers', type: 'scatter', name: name,
               marker: { size: events.map(e => Math.max(8, Math.min(25, e.snr || 10))),
                         color: color, ... },
               text: events.map(e => `<b>${e.name}</b><br>` + ...), ... };
  }
  \<close>
  The constant styling members are left out.
\<close>

record trace =
  trace_x :: "jsval list"
  trace_y :: "jsval list"
  trace_name :: string
  trace_size :: "jsnum list"
  trace_color :: string
  trace_text :: "hover list"

definition createTrace ::
    "(json \<Rightarrow> jsnum) \<Rightarrow> json list \<Rightarrow> string \<Rightarrow> string \<Rightarrow> error + trace" where
  "createTrace coerce events name color =
     bindE (mapE (callback (field ''m1'')) events) (\<lambda>xs.
     bindE (mapE (callback (field ''m2'')) events) (\<lambda>ys.
     bindE (mapE (callbackE (marker_size coerce)) events) (\<lambda>sizes.
     bindE (mapE (callbackE hover_text) events) (\<lambda>texts.
       Inr \<lparr>trace_x = xs, trace_y = ys, trace_name = name, trace_size = sizes,
            trace_color = color, trace_text = texts\<rparr>))))"

text \<open>
  \<^verbatim>\<open>
  function createPlot(events) {
      const bbhEvents = events.filter(e => e.source_type === 'BBH');
      const nsbhEvents = events.filter(e => e.source_type === 'NSBH');
      const bnsEvents = events.filter(e => e.source_type === 'BNS');
      const traces = [];
      if (bbhEvents.length > 0)  traces.push(createTrace(bbhEvents, 'BBH (Binary Black Hole)', '#9b59b6'));
      if (nsbhEvents.length > 0) traces.push(createTrace(nsbhEvents, 'NSBH (NS-BH)', '#e67e22'));
      if (bnsEvents.length > 0)  traces.push(createTrace(bnsEvents, 'BNS (Binary NS)', '#3498db'));
      ... Plotly.newPlot('massPlot', traces, layout, config);
  }
  \<close>
  The result is the list of traces handed to the plotting library.
\<close>

definition push_trace ::
    "(json \<Rightarrow> jsnum) \<Rightarrow> json list \<Rightarrow> string \<Rightarrow> string \<Rightarrow> trace list \<Rightarrow> error + trace list" where
  "push_trace coerce evs name color traces =
     (if length evs > 0
      then bindE (createTrace coerce evs name color) (\<lambda>t. Inr (traces @ [t]))
      else Inr traces)"

definition createPlot :: "(json \<Rightarrow> jsnum) \<Rightarrow> json list \<Rightarrow> error + trace list" where
  "createPlot coerce events =
     bindE (filterE (callback (has_type ''BBH'')) events) (\<lambda>bbhEvents.
     bindE (filterE (callback (has_type ''NSBH'')) events) (\<lambda>nsbhEvents.
     bindE (filterE (callback (has_type ''BNS'')) events) (\<lambda>bnsEvents.
     bindE (push_trace coerce bbhEvents ''BBH (Binary Black Hole)'' ''#9b59b6'' []) (\<lambda>traces.
     bindE (push_trace coerce nsbhEvents ''NSBH (NS-BH)'' ''#e67e22'' traces) (\<lambda>traces.
            push_trace coerce bnsEvents ''BNS (Binary NS)'' ''#3498db'' traces)))))"

text \<open>
  The robust variant builds the same groups from a table, in the table's order, draws only
  into an existing container, and prints a shorter hover text:
  \<^verbatim>\<open>
  function createPlot(events) {
      const container = document.getElementById('massPlot');
      if (!container) return;
      const traces = [];
      const groups = {
          BBH: { label: 'BBH (Binary Black Hole)', color: '#9b59b6' },
          NSBH: { label: 'NSBH (NS-BH)', color: '#e67e22' },
          BNS: { label: 'BNS (Binary NS)', color: '#3498db' }
      };
      Object.keys(groups).forEach(type => {
          const subset = events.filter(e => e.source_type === type);
          if (subset.length > 0) {
              traces.push(createTrace(subset, groups[type].label, groups[type].color));
          }
      });
      ... Plotly.newPlot(container, traces, layout, ...);
  }
  \<close>
  Its \<^verbatim>\<open>createTrace\<close> differs in the text only, which interpolates \<^verbatim>\<open>e.snr ?? 'N/A'\<close>
  and has no optional lines.
\<close>

definition nullish_or :: "jsval \<Rightarrow> jsval \<Rightarrow> jsval" where
  "nullish_or a b = (if a = None \<or> a = Some JNull then b else a)"

definition hover_lines_robust :: "json \<Rightarrow> hover" where
  "hover_lines_robust e =
     [(''name'', field ''name'' e),
      (''M1'', field ''m1'' e),
      (''M2'', field ''m2'' e),
      (''SNR'', nullish_or (field ''snr'' e) (Some (JStr ''N/A''))),
      (''Type'', field ''source_type'' e),
      (''Date'', field ''detection_date'' e)]"

definition hover_text_robust :: "json \<Rightarrow> error + hover" where
  "hover_text_robust e = template (hover_lines_robust e)"

definition createTrace_robust ::
    "(json \<Rightarrow> jsnum) \<Rightarrow> json list \<Rightarrow> string \<Rightarrow> string \<Rightarrow> error + trace" where
  "createTrace_robust coerce events name color =
     bindE (mapE (callback (field ''m1'')) events) (\<lambda>xs.
     bindE (mapE (callback (field ''m2'')) events) (\<lambda>ys.
     bindE (mapE (callbackE (marker_size coerce)) events) (\<lambda>sizes.
     bindE (mapE (callbackE hover_text_robust) events) (\<lambda>texts.
       Inr \<lparr>trace_x = xs, trace_y = ys, trace_name = name, trace_size = sizes,
            trace_color = color, trace_text = texts\<rparr>))))"

definition groups :: "(string \<times> string \<times> string) list" where
  "groups = [(''BBH'', ''BBH (Binary Black Hole)'', ''#9b59b6''),
             (''NSBH'', ''NSBH (NS-BH)'', ''#e67e22''),
             (''BNS'', ''BNS (Binary NS)'', ''#3498db'')]"

fun each_group ::
    "(json \<Rightarrow> jsnum) \<Rightarrow> json list \<Rightarrow> (string \<times> string \<times> string) list \<Rightarrow> trace list \<Rightarrow> error + trace list" where
  "each_group coerce events [] traces = Inr traces"
| "each_group coerce events ((type, label, color) # rest) traces =
     bindE (filterE (callback (has_type type)) events) (\<lambda>members.
       if length members > 0
       then bindE (createTrace_robust coerce members label color)
              (\<lambda>t. each_group coerce events rest (traces @ [t]))
       else each_group coerce events rest traces)"

definition createPlot_robust ::
    "(json \<Rightarrow> jsnum) \<Rightarrow> bool \<Rightarrow> json list \<Rightarrow> error + trace list option" where
  "createPlot_robust coerce container events =
     (if \<not> container then Inr None
      else bindE (each_group coerce events groups []) (\<lambda>traces. Inr (Some traces)))"

text \<open>A trace without its hover text.\<close>

definition points :: "trace \<Rightarrow> string \<times> string \<times> jsval list \<times> jsval list \<times> jsnum list" where
  "points t = (trace_name t, trace_color t, trace_x t, trace_y t, trace_size t)"

text \<open>The three classes the page knows, and any other value of \<^verbatim>\<open>source_type\<close>.\<close>

definition known_type :: "json \<Rightarrow> bool" where
  "known_type e = (has_type ''BBH'' e \<or> has_type ''NSBH'' e \<or> has_type ''BNS'' e)"

text \<open>The legend entry of each class, as \<^verbatim>\<open>createPlot\<close> passes it to
  \<^verbatim>\<open>createTrace\<close>.\<close>

definition type_label :: "string \<Rightarrow> string" where
  "type_label t =
     (if t = ''BBH'' then ''BBH (Binary Black Hole)''
      else if t = ''NSBH'' then ''NSBH (NS-BH)''
      else ''BNS (Binary NS)'')"

text \<open>The marker size in the words of the specification: the clamp of the event's
  \<^verbatim>\<open>snr\<close> when that is a non-zero number, of 10 otherwise.\<close>

definition snr_or_ten :: "json \<Rightarrow> real" where
  "snr_or_ten e = (case field ''snr'' e of Some (JNum r) \<Rightarrow> (if r \<noteq> 0 then r else 10) | _ \<Rightarrow> 10)"

definition snr_number_or_absent :: "json \<Rightarrow> bool" where
  "snr_number_or_absent e =
     (case field ''snr'' e of None \<Rightarrow> True | Some JNull \<Rightarrow> True | Some (JNum r) \<Rightarrow> True | _ \<Rightarrow> False)"


subsection \<open>Catalog filter\<close>

text \<open>
  The page keeps two globals, set by \<^verbatim>\<open>loadData\<close>:
  \<^verbatim>\<open>
  allEventsData = data;
  allEventsList = data.all_events || data.events;
  \<close>
\<close>

definition allEventsList :: "json \<Rightarrow> error + jsval" where
  "allEventsList data =
     bindE (getprop ''all_events'' (Some data)) (\<lambda>a.
       if truthy a then Inr a else getprop ''events'' (Some data))"

text \<open>
  The change handler of the catalog selector:
  \<^verbatim>\<open>
  const selectedCatalog = e.target.value;
  if (selectedCatalog === 'all') {
      displayEvents(allEventsData.events); // Show unique events
  } else {
      const filtered = allEventsList.filter(event => event.catalog === selectedCatalog);
      displayEvents(filtered);
  }
  \<close>
  \<open>selectEvents\<close> is the value the handler passes to \<^verbatim>\<open>displayEvents\<close>.
\<close>

definition selectEvents :: "json \<Rightarrow> jsval \<Rightarrow> string \<Rightarrow> error + jsval" where
  "selectEvents allEventsData allEvents selectedCatalog =
     (if selectedCatalog = ''all'' then getprop ''events'' (Some allEventsData)
      else bindE (as_array allEvents) (\<lambda>all.
           bindE (filterE (callback (\<lambda>event. field ''catalog'' event = Some (JStr selectedCatalog))) all)
             (\<lambda>filtered. Inr (Some (JArr filtered)))))"

text \<open>
  The earliest variant of the script tags a record by the field \<^verbatim>\<open>version\<close> and filters
  the snapshot's own list:
  \<^verbatim>\<open>
  const filtered = allEventsData.events.filter(event => event.version === selectedCatalog);
  \<close>
\<close>

definition selectEvents_version :: "json \<Rightarrow> string \<Rightarrow> error + jsval" where
  "selectEvents_version allEventsData selectedCatalog =
     bindE (getprop ''events'' (Some allEventsData)) (\<lambda>events.
       if selectedCatalog = ''all'' then Inr events
       else bindE (as_array events) (\<lambda>all.
            bindE (filterE (callback (\<lambda>event. field ''version'' event = Some (JStr selectedCatalog))) all)
              (\<lambda>filtered. Inr (Some (JArr filtered)))))"

text \<open>
  \<^verbatim>\<open>
  function updateFilterInfo(displayed, total) {
      const uniqueCount = allEventsData.unique_events || total;
      if (displayed === uniqueCount) info.textContent = `Showing all ${uniqueCount} unique events`;
      else info.textContent = `Showing ${displayed} of ${uniqueCount} events`;
  }
  \<close>
\<close>

datatype filter_info =
    ShowingAllUnique jsval
  | ShowingOf nat jsval

text \<open>In the first branch \<^verbatim>\<open>uniqueCount\<close> is the number \<^verbatim>\<open>displayed\<close>; in the second the
  template converts whatever value it is.\<close>

definition updateFilterInfo :: "json \<Rightarrow> nat \<Rightarrow> jsval \<Rightarrow> error + filter_info" where
  "updateFilterInfo allEventsData displayed total_count =
     (let uniqueCount = js_or (field ''unique_events'' allEventsData) total_count
      in if uniqueCount = Some (JNum (real displayed)) then Inr (ShowingAllUnique uniqueCount)
         else bindE (interpolate uniqueCount) (\<lambda>shown. Inr (ShowingOf displayed shown)))"

text \<open>
  \<^verbatim>\<open>
  function displayEvents(events) {
      updateStats(events);
      createPlot(events);
      updateFilterInfo(events.length, allEventsData.event_count);
  }
  \<close>
  \<^verbatim>\<open>updateStats\<close> reads \<^verbatim>\<open>events.length\<close> and calls \<^verbatim>\<open>events.filter\<close>, which exists on
  arrays only.
\<close>

record view =
  view_stats :: stats
  view_traces :: "trace list"
  view_info :: filter_info

definition displayEvents :: "(json \<Rightarrow> jsnum) \<Rightarrow> json \<Rightarrow> jsval \<Rightarrow> error + view" where
  "displayEvents coerce allEventsData events =
     bindE (as_array events) (\<lambda>evs.
     bindE (updateStats evs) (\<lambda>st.
     bindE (createPlot coerce evs) (\<lambda>traces.
     bindE (getprop ''event_count'' (Some allEventsData)) (\<lambda>event_count.
     bindE (updateFilterInfo allEventsData (length evs) event_count) (\<lambda>info.
       Inr \<lparr>view_stats = st, view_traces = traces, view_info = info\<rparr>)))))"


subsection \<open>Effective spin\<close>

text \<open>
  The robust variant of the script:
  \<^verbatim>\<open>
  function createSpinPlot(events) {
      const container = document.getElementById('spinPlot');
      if (!container) return;
      const values = events.map(e => e.chi_eff).filter(v => v !== null && v !== undefined);
      if (values.length === 0) {
          container.innerHTML = '<div ...>No spin data</div>';
          return;
      }
      Plotly.newPlot(container, [{ x: values, type: 'histogram' }], ...);
  }
  \<close>
  \<open>container\<close> says whether the page has the element; without it nothing is drawn.
\<close>

datatype spin_view =
    SpinNotice string
  | SpinHistogram "jsval list"

definition createSpinPlot :: "bool \<Rightarrow> json list \<Rightarrow> error + spin_view option" where
  "createSpinPlot container events =
     (if \<not> container then Inr None
      else bindE (mapE (callback (field ''chi_eff'')) events) (\<lambda>vs.
        let values = filter (\<lambda>v. v \<noteq> Some JNull \<and> v \<noteq> None) vs
        in if length values = 0 then Inr (Some (SpinNotice ''No spin data''))
           else Inr (Some (SpinHistogram values))))"

text \<open>
  The variant with separate plots filters the events first and reads the field after:
  \<^verbatim>\<open>
  const eventsWithSpin = events.filter(e => e.chi_eff !== null && e.chi_eff !== undefined);
  if (eventsWithSpin.length === 0) { ... 'No spin data available for current selection' ...; return; }
  const spinValues = eventsWithSpin.map(e => e.chi_eff);
  \<close>
\<close>

definition createSpinPlot_selection :: "json list \<Rightarrow> error + spin_view" where
  "createSpinPlot_selection events =
     bindE (filterE (callback (\<lambda>e. field ''chi_eff'' e \<noteq> Some JNull \<and> field ''chi_eff'' e \<noteq> None)) events)
       (\<lambda>eventsWithSpin.
          if length eventsWithSpin = 0
          then Inr (SpinNotice ''No spin data available for current selection'')
          else bindE (mapE (callback (field ''chi_eff'')) eventsWithSpin)
                 (\<lambda>spinValues. Inr (SpinHistogram spinValues)))"

text \<open>The histogram input in the words of the claim: the \<^verbatim>\<open>chi_eff\<close> values that are
  neither \<^verbatim>\<open>null\<close> nor absent, in input order.\<close>

definition spin_values :: "json list \<Rightarrow> jsval list" where
  "spin_values events = [field ''chi_eff'' e. e \<leftarrow> events, field ''chi_eff'' e \<noteq> None, field ''chi_eff'' e \<noteq> Some JNull]"


subsection \<open>Cumulative timeline\<close>

text \<open>
  \<^verbatim>\<open>xs.sort((a, b) => new Date(a.detection_date) - new Date(b.detection_date))\<close>.
  The key of a record is the time value of its date, \<^verbatim>\<open>NaN\<close> (here \<open>None\<close>) for an
  invalid date. When every key is a number the comparator is consistent and the language
  fixes the result: the elements in ascending key order, equal keys in their input order.
  A \<^verbatim>\<open>NaN\<close> key makes the comparator return \<^verbatim>\<open>NaN\<close>; it is then not a consistent
  comparator and the language leaves the order to the engine. Fewer than two elements
  have one order only.
\<close>

datatype 'a outcome =
    Fixed 'a
  | EngineDefined

definition key_value :: "jsnum \<Rightarrow> real" where
  "key_value k = (case k of Some r \<Rightarrow> r | None \<Rightarrow> 0)"

definition js_sort_by :: "('a \<Rightarrow> jsnum) \<Rightarrow> 'a list \<Rightarrow> 'a list outcome" where
  "js_sort_by key xs =
     (if list_all (\<lambda>x. key x \<noteq> None) xs then Fixed (sort_key (\<lambda>x. key_value (key x)) xs)
      else if length xs < 2 then Fixed xs
      else EngineDefined)"

text \<open>
  The comparator builds \<^verbatim>\<open>new Date(a.detection_date)\<close> and \<^verbatim>\<open>new Date(b.detection_date)\<close>;
  the constructor converts an object or array to a primitive first, which may raise. Sorting
  two or more elements passes each of them to the comparator at least once, so the sort
  raises when one of their dates fails to convert; fewer than two elements are never
  compared. \<open>date_value v\<close> is the time value of \<^verbatim>\<open>new Date(v)\<close> for a value that converts,
  given by the host.
\<close>

definition sort_by_date :: "(jsval \<Rightarrow> jsnum) \<Rightarrow> json list \<Rightarrow> error + json list outcome" where
  "sort_by_date date_value xs =
     (if 2 \<le> length xs \<and> \<not> list_all (\<lambda>e. printable (field ''detection_date'' e)) xs
      then Inl TypeError
      else Inr (js_sort_by (\<lambda>e. date_value (field ''detection_date'' e)) xs))"

text \<open>
  The robust variant of the script:
  \<^verbatim>\<open>
  function createTimelinePlot(events) {
      const container = document.getElementById('timelinePlot');
      if (!container) return;
      const sorted = [...events]
          .filter(e => e.detection_date && e.detection_date !== 'Unknown')
          .sort((a, b) => new Date(a.detection_date) - new Date(b.detection_date));
      let count = 0; const dates = []; const totals = [];
      sorted.forEach(e => { dates.push(e.detection_date); totals.push(++count); });
      Plotly.newPlot(container, [{ x: dates, y: totals, ... }], ...);
  }
  \<close>
\<close>

record timeline =
  timeline_dates :: "jsval list"
  timeline_totals :: "nat list"

definition dated :: "json \<Rightarrow> bool" where
  "dated e = (truthy (field ''detection_date'' e) \<and> field ''detection_date'' e \<noteq> Some (JStr ''Unknown''))"

fun accumulate :: "json list \<Rightarrow> nat \<Rightarrow> timeline \<Rightarrow> timeline" where
  "accumulate [] count line = line"
| "accumulate (e # es) count line =
     accumulate es (count + 1)
       (line\<lparr>timeline_dates := timeline_dates line @ [field ''detection_date'' e],
             timeline_totals := timeline_totals line @ [count + 1]\<rparr>)"

definition createTimelinePlot ::
    "(jsval \<Rightarrow> jsnum) \<Rightarrow> bool \<Rightarrow> json list \<Rightarrow> error + timeline outcome option" where
  "createTimelinePlot date_value container events =
     (if \<not> container then Inr None
      else bindE (filterE (callback dated) events) (\<lambda>kept.
           bindE (sort_by_date date_value kept) (\<lambda>result.
             Inr (Some (case result of
                          EngineDefined \<Rightarrow> EngineDefined
                        | Fixed sorted_events \<Rightarrow>
                            Fixed (accumulate sorted_events 0
                                     \<lparr>timeline_dates = [], timeline_totals = []\<rparr>))))))"

text \<open>
  The variant with separate plots sorts every record first and skips the undated ones
  while counting:
  \<^verbatim>\<open>
  function createTimelinePlot(events) {
      const sortedEvents = [...events].sort((a, b) => {
          return new Date(a.detection_date) - new Date(b.detection_date);
      });
      ...
      sortedEvents.forEach(event => {
          if (event.detection_date !== 'Unknown') {
              dates.push(event.detection_date);
              totalCount++; counts.push(totalCount);
              if (event.source_type === 'BBH') bbhCount++;
              if (event.source_type === 'NSBH') nsbhCount++;
              if (event.source_type === 'BNS') bnsCount++;
              bbhCounts.push(bbhCount); nsbhCounts.push(nsbhCount); bnsCounts.push(bnsCount);
          }
      });
      ...
  }
  \<close>
  A \<^verbatim>\<open>null\<close> element raises in the comparator or, in a one-element array, in the loop.
\<close>

record tally =
  t_dates :: "jsval list"
  t_counts :: "nat list"
  t_bbhCounts :: "nat list"
  t_nsbhCounts :: "nat list"
  t_bnsCounts :: "nat list"
  t_total :: nat
  t_bbh :: nat
  t_nsbh :: nat
  t_bns :: nat

definition tally_start :: tally where
  "tally_start = \<lparr>t_dates = [], t_counts = [], t_bbhCounts = [], t_nsbhCounts = [],
                  t_bnsCounts = [], t_total = 0, t_bbh = 0, t_nsbh = 0, t_bns = 0\<rparr>"

definition tally_event :: "tally \<Rightarrow> json \<Rightarrow> tally" where
  "tally_event s event =
     (if field ''detection_date'' event \<noteq> Some (JStr ''Unknown'')
      then let n = t_total s + 1;
               bbh = t_bbh s + (if has_type ''BBH'' event then 1 else 0);
               nsbh = t_nsbh s + (if has_type ''NSBH'' event then 1 else 0);
               bns = t_bns s + (if has_type ''BNS'' event then 1 else 0)
           in \<lparr>t_dates = t_dates s @ [field ''detection_date'' event],
               t_counts = t_counts s @ [n],
               t_bbhCounts = t_bbhCounts s @ [bbh],
               t_nsbhCounts = t_nsbhCounts s @ [nsbh],
               t_bnsCounts = t_bnsCounts s @ [bns],
               t_total = n, t_bbh = bbh, t_nsbh = nsbh, t_bns = bns\<rparr>
      else s)"

definition createTimelinePlot_sort_first ::
    "(jsval \<Rightarrow> jsnum) \<Rightarrow> json list \<Rightarrow> error + tally outcome" where
  "createTimelinePlot_sort_first date_value events =
     (if list_ex (\<lambda>e. e = JNull) events then Inl TypeError
      else bindE (sort_by_date date_value events) (\<lambda>result.
             Inr (case result of
                    EngineDefined \<Rightarrow> EngineDefined
                  | Fixed sortedEvents \<Rightarrow> Fixed (foldl tally_event tally_start sortedEvents))))"

text \<open>
  One engine the language admits: straight insertion, a \<^verbatim>\<open>NaN\<close> from the comparator
  counting as 0 (as the specification of \<^verbatim>\<open>sort\<close> prescribes for the value the comparator
  returns). On valid keys it is the stable sort; with a \<^verbatim>\<open>NaN\<close> key it shows one of the
  orders an engine may produce.
\<close>

definition compare_by :: "('a \<Rightarrow> jsnum) \<Rightarrow> 'a \<Rightarrow> 'a \<Rightarrow> real" where
  "compare_by key a b = (case (key a, key b) of (Some x, Some y) \<Rightarrow> x - y | _ \<Rightarrow> 0)"

fun insert_by :: "('a \<Rightarrow> 'a \<Rightarrow> real) \<Rightarrow> 'a \<Rightarrow> 'a list \<Rightarrow> 'a list" where
  "insert_by c x [] = [x]"
| "insert_by c x (y # ys) = (if c x y \<le> 0 then x # y # ys else y # insert_by c x ys)"

definition insertion_sort :: "('a \<Rightarrow> 'a \<Rightarrow> real) \<Rightarrow> 'a list \<Rightarrow> 'a list" where
  "insertion_sort c xs = foldr (insert_by c) xs []"

text \<open>
  A date function for the date-only form \<^verbatim>\<open>YYYY-MM-DD\<close> of the language's date-time
  string format: midnight UTC of that day in milliseconds since 1970-01-01, and
  \<^verbatim>\<open>NaN\<close> for a month or day out of range. Every host agrees with it on these strings;
  on any other value it answers \<^verbatim>\<open>NaN\<close>, which hosts need not do. It serves as the
  host in the worked examples.
\<close>

definition digit :: "char \<Rightarrow> nat option" where
  "digit c = (let n = (of_char c :: nat) in if 48 \<le> n \<and> n \<le> 57 then Some (n - 48) else None)"

fun digits :: "nat \<Rightarrow> string \<Rightarrow> nat option" where
  "digits acc [] = Some acc"
| "digits acc (c # cs) = (case digit c of None \<Rightarrow> None | Some d \<Rightarrow> digits (10 * acc + d) cs)"

definition leap_year :: "nat \<Rightarrow> bool" where
  "leap_year y = (y mod 4 = 0 \<and> (y mod 100 \<noteq> 0 \<or> y mod 400 = 0))"

definition days_in_month :: "nat \<Rightarrow> nat \<Rightarrow> nat" where
  "days_in_month y m =
     (if m = 2 then (if leap_year y then 29 else 28)
      else if m = 4 \<or> m = 6 \<or> m = 9 \<or> m = 11 then 30 else 31)"

definition days_from_civil :: "int \<Rightarrow> int \<Rightarrow> int \<Rightarrow> int" where
  "days_from_civil y m d =
     (let y' = (if m \<le> 2 then y - 1 else y);
          era = y' div 400;
          yoe = y' - era * 400;
          doy = (153 * (if m > 2 then m - 3 else m + 9) + 2) div 5 + d - 1;
          doe = yoe * 365 + yoe div 4 - yoe div 100 + doy
      in era * 146097 + doe - 719468)"

fun iso_date_value :: "jsval \<Rightarrow> jsnum" where
  "iso_date_value (Some (JStr [y1, y2, y3, y4, s1, m1, m2, s2, d1, d2])) =
     (if s1 = CHR ''-'' \<and> s2 = CHR ''-'' then
        (case (digits 0 [y1, y2, y3, y4], digits 0 [m1, m2], digits 0 [d1, d2]) of
           (Some y, Some m, Some d) \<Rightarrow>
             (if 1 \<le> m \<and> m \<le> 12 \<and> 1 \<le> d \<and> d \<le> days_in_month y m
              then Some (real_of_int (days_from_civil (int y) (int m) (int d)) * 86400000)
              else None)
         | _ \<Rightarrow> None)
      else None)"
| "iso_date_value _ = None"


section \<open>Catalog loader\<close>

text \<open>
  What \<^verbatim>\<open>fetch\<close> and \<^verbatim>\<open>response.json()\<close> produce: the request fails, or a response
  arrives with its \<^verbatim>\<open>ok\<close> flag, its status and a body that parses or does not.
\<close>

datatype body =
    Unparsable
  | Parsed json

datatype response =
    NetworkFailure
  | Response bool nat body

text \<open>
  The page as the loader sees it: the global \<^verbatim>\<open>allEventsData\<close>, the elements by id with
  what they show, and the console. An element shows what the static page put there, markup
  assigned to \<^verbatim>\<open>innerHTML\<close>, or something drawn by one of the display procedures.
\<close>

datatype 'c content =
    Static
  | InnerHTML string
  | Drawn 'c

record 'c page =
  allEventsData :: jsval
  dom :: "string \<Rightarrow> 'c content option"
  console :: "error list"

type_synonym 'c proc = "'c page \<Rightarrow> (error + unit) \<times> 'c page"

text \<open>Statement sequencing: an exception skips what follows and keeps what was done.\<close>

definition and_then :: "'c proc \<Rightarrow> 'c proc \<Rightarrow> 'c proc" where
  "and_then p q pg = (case p pg of (Inl e, pg') \<Rightarrow> (Inl e, pg') | (Inr u, pg') \<Rightarrow> q pg')"

definition isArray :: "jsval \<Rightarrow> bool" where
  "isArray v = (case v of Some (JArr xs) \<Rightarrow> True | _ \<Rightarrow> False)"

text \<open>
  The body of the \<^verbatim>\<open>try\<close> block. The three procedures it calls on success are parameters;
  they run on the validated array only.
  \<^verbatim>\<open>
  const response = await fetch('./data/gw_events.json');
  if (!response.ok) { throw new Error(`HTTP error ${response.status}`); }
  const data = await response.json();
  if (!data || !Array.isArray(data.events)) { throw new Error('Invalid data format'); }
  allEventsData = data;
  populateCatalogFilter(data.events);
  displayEvents(data.events);
  updateLastUpdate(data.updated);
  \<close>
\<close>

definition loadData_try ::
    "(jsval \<Rightarrow> 'c proc) \<Rightarrow> (jsval \<Rightarrow> 'c proc) \<Rightarrow> (jsval \<Rightarrow> 'c proc) \<Rightarrow> response \<Rightarrow> 'c proc" where
  "loadData_try populateCatalogFilter displayEvents_proc updateLastUpdate resp pg =
     (case resp of
        NetworkFailure \<Rightarrow> (Inl FetchRejected, pg)
      | Response ok status b \<Rightarrow>
          if \<not> ok then (Inl (HttpError status), pg)
          else (case b of
                  Unparsable \<Rightarrow> (Inl SyntaxError, pg)
                | Parsed data \<Rightarrow>
                    if \<not> truthy (Some data) \<or> \<not> isArray (field ''events'' data)
                    then (Inl InvalidDataFormat, pg)
                    else and_then (populateCatalogFilter (field ''events'' data))
                           (and_then (displayEvents_proc (field ''events'' data))
                              (updateLastUpdate (field ''updated'' data)))
                           (pg\<lparr>allEventsData := Some data\<rparr>)))"

text \<open>
  The handler:
  \<^verbatim>\<open>
  } catch (error) {
      console.error('Error loading GW data:', error);
      const plot = document.getElementById('massPlot');
      if (plot) { plot.innerHTML = '<div class="loading">Failed to load data.</div>'; }
  }
  \<close>
\<close>

definition failure_notice :: string where
  \<open>failure_notice = ''<div class="loading">Failed to load data.</div>''\<close>

definition show_failure :: "error \<Rightarrow> 'c page \<Rightarrow> 'c page" where
  "show_failure e pg =
     pg\<lparr>console := console pg @ [e],
        dom := (if dom pg ''massPlot'' = None then dom pg
                else (dom pg)(''massPlot'' \<mapsto> InnerHTML failure_notice))\<rparr>"

definition loadData ::
    "(jsval \<Rightarrow> 'c proc) \<Rightarrow> (jsval \<Rightarrow> 'c proc) \<Rightarrow> (jsval \<Rightarrow> 'c proc) \<Rightarrow> response \<Rightarrow> 'c page \<Rightarrow> 'c page" where
  "loadData populateCatalogFilter displayEvents_proc updateLastUpdate resp pg =
     (case loadData_try populateCatalogFilter displayEvents_proc updateLastUpdate resp pg of
        (Inl e, pg') \<Rightarrow> show_failure e pg'
      | (Inr u, pg') \<Rightarrow> pg')"

text \<open>The shape the specification asks of a catalog: an object with an array under
  \<^verbatim>\<open>events\<close>.\<close>

definition catalog_shape :: "json \<Rightarrow> bool" where
  "catalog_shape data =
     (case data of
        JObj kvs \<Rightarrow> (case map_of kvs ''events'' of Some (JArr evs) \<Rightarrow> True | _ \<Rightarrow> False)
      | _ \<Rightarrow> False)"


subsection \<open>The loader without a shape check\<close>

text \<open>
  The script under \<^verbatim>\<open>docs/\<close> stores what it parsed and goes straight on; a second global
  holds the flat list. The three parameters are \<^verbatim>\<open>populateCatalogFilter\<close>,
  \<^verbatim>\<open>displayEvents\<close> and the closing statements (update time, close button).
  \<^verbatim>\<open>
  const response = await fetch('./data/gw_events.json');
  if (!response.ok) throw new Error('Failed to load data');
  const data = await response.json();
  allEventsData = data; // Store globally
  allEventsList = data.all_events || data.events; // Store all versions
  populateCatalogFilter(data.events);
  displayEvents(data.events);
  const updateDate = new Date(data.updated);
  ...
  \<close>
\<close>

record 'c live_page =
  live_data :: jsval
  live_list :: jsval
  live_dom :: "string \<Rightarrow> 'c content option"
  live_console :: "error list"

type_synonym 'c live_proc = "'c live_page \<Rightarrow> (error + unit) \<times> 'c live_page"

definition live_then :: "'c live_proc \<Rightarrow> 'c live_proc \<Rightarrow> 'c live_proc" where
  "live_then p q pg = (case p pg of (Inl e, pg') \<Rightarrow> (Inl e, pg') | (Inr u, pg') \<Rightarrow> q pg')"

definition loadData_unchecked_try ::
    "(jsval \<Rightarrow> 'c live_proc) \<Rightarrow> (jsval \<Rightarrow> 'c live_proc) \<Rightarrow> (jsval \<Rightarrow> 'c live_proc) \<Rightarrow> response
       \<Rightarrow> 'c live_proc" where
  "loadData_unchecked_try populateCatalogFilter displayEvents_proc closing resp pg =
     (case resp of
        NetworkFailure \<Rightarrow> (Inl FetchRejected, pg)
      | Response ok status b \<Rightarrow>
          if \<not> ok then (Inl LoadFailed, pg)
          else (case b of
                  Unparsable \<Rightarrow> (Inl SyntaxError, pg)
                | Parsed data \<Rightarrow>
                    (case allEventsList data of
                       Inl e \<Rightarrow> (Inl e, pg\<lparr>live_data := Some data\<rparr>)
                     | Inr flat \<Rightarrow>
                         live_then (populateCatalogFilter (field ''events'' data))
                           (live_then (displayEvents_proc (field ''events'' data))
                              (closing (field ''updated'' data)))
                           (pg\<lparr>live_data := Some data, live_list := flat\<rparr>))))"

text \<open>
  Its handler writes the notice without asking whether the container exists:
  \<^verbatim>\<open>
  } catch (error) {
      console.error('Error loading data:', error);
      document.getElementById('massPlot').innerHTML =
          '<div class="loading">Failed to load data. Please refresh the page.</div>';
  }
  \<close>
\<close>

definition refresh_notice :: string where
  \<open>refresh_notice = ''<div class="loading">Failed to load data. Please refresh the page.</div>''\<close>

definition loadData_unchecked ::
    "(jsval \<Rightarrow> 'c live_proc) \<Rightarrow> (jsval \<Rightarrow> 'c live_proc) \<Rightarrow> (jsval \<Rightarrow> 'c live_proc) \<Rightarrow> response
       \<Rightarrow> 'c live_proc" where
  "loadData_unchecked populateCatalogFilter displayEvents_proc closing resp pg =
     (case loadData_unchecked_try populateCatalogFilter displayEvents_proc closing resp pg of
        (Inl e, pg') \<Rightarrow>
          (if live_dom pg' ''massPlot'' = None
           then (Inl TypeError, pg'\<lparr>live_console := live_console pg' @ [e]\<rparr>)
           else (Inr (), pg'\<lparr>live_console := live_console pg' @ [e],
                             live_dom := (live_dom pg')(''massPlot'' \<mapsto> InnerHTML refresh_notice)\<rparr>))
      | (Inr u, pg') \<Rightarrow> (Inr (), pg'))"

text \<open>
  The change handler runs later, outside any \<^verbatim>\<open>try\<close>: it selects and displays, and what it
  raises is not caught.
\<close>

definition on_change :: "(json \<Rightarrow> jsnum) \<Rightarrow> json \<Rightarrow> jsval \<Rightarrow> string \<Rightarrow> error + view" where
  "on_change coerce data allEvents selectedCatalog =
     bindE (selectEvents data allEvents selectedCatalog) (displayEvents coerce data)"


section \<open>Auxiliary notions for the statements\<close>

text \<open>The trace of one class built without the error plumbing: none when no event has
  the class, else the one trace over the events of the class in input order.\<close>

definition marker_value :: "(json \<Rightarrow> jsnum) \<Rightarrow> json \<Rightarrow> jsnum" where
  "marker_value coerce e =
     math_max (Some 8) (math_min (Some 25)
       (numeric coerce (js_or (field ''snr'' e) (Some (JNum 10)))))"

definition class_trace :: "(json \<Rightarrow> jsnum) \<Rightarrow> json list \<Rightarrow> string \<Rightarrow> string \<Rightarrow> trace list" where
  "class_trace coerce events t color =
     (let members = filter (has_type t) events
      in if members = [] then []
         else [\<lparr>trace_x = map (field ''m1'') members, trace_y = map (field ''m2'') members,
                trace_name = type_label t, trace_size = map (marker_value coerce) members,
                trace_color = color, trace_text = map hover_lines members\<rparr>])"

text \<open>An event whose plotted fields convert without raising: the value sized
  (\<^verbatim>\<open>e.snr || 10\<close>) and every value the hover text interpolates.\<close>

definition size_ok :: "json \<Rightarrow> bool" where
  "size_ok e = printable (js_or (field ''snr'' e) (Some (JNum 10)))"

definition text_ok :: "json \<Rightarrow> bool" where
  "text_ok e = list_all (\<lambda>line. printable (snd line)) (hover_lines e)"

definition plottable :: "json \<Rightarrow> bool" where
  "plottable e = (size_ok e \<and> text_ok e)"

definition text_ok_robust :: "json \<Rightarrow> bool" where
  "text_ok_robust e = list_all (\<lambda>line. printable (snd line)) (hover_lines_robust e)"

text \<open>The count the info line prints.\<close>

definition unique_count :: "json \<Rightarrow> jsval" where
  "unique_count data = js_or (field ''unique_events'' data) (field ''event_count'' data)"


section \<open>Sample data\<close>

text \<open>Records carrying the fields an example needs.\<close>

definition detection :: "string \<Rightarrow> string \<Rightarrow> json" where
  "detection name date = JObj [(''name'', JStr name), (''detection_date'', JStr date)]"

definition version_record :: "string \<Rightarrow> string \<Rightarrow> string \<Rightarrow> json" where
  "version_record name catalog source =
     JObj [(''name'', JStr name), (''catalog'', JStr catalog), (''source_type'', JStr source)]"

text \<open>The four dates of the timeline example, in input order.\<close>

definition timeline_example :: "json list" where
  "timeline_example =
     [detection ''GW230501'' ''2023-05-01'', detection ''GW-undated'' ''Unknown'',
      detection ''GW200101'' ''2020-01-01'', detection ''GW150914'' ''2015-09-14'']"

text \<open>A snapshot whose \<^verbatim>\<open>events\<close> array lists one name under two catalog versions while
  declaring one unique event.\<close>

definition repeated_name_snapshot :: json where
  "repeated_name_snapshot =
     JObj [(''event_count'', JNum 2), (''unique_events'', JNum 1),
           (''events'', JArr [version_record ''GW190521'' ''GWTC-2.1-confident'' ''BBH'',
                             version_record ''GW190521'' ''GWTC-3-confident'' ''BBH''])]"


text \<open>A page with the plot container and a statistics card, nothing loaded yet.\<close>

definition blank_page :: "unit page" where
  "blank_page = \<lparr>allEventsData = Some JNull,
                 dom = [''massPlot'' \<mapsto> Static, ''totalEvents'' \<mapsto> Static],
                 console = []\<rparr>"

definition no_op :: "jsval \<Rightarrow> unit proc" where
  "no_op v pg = (Inr (), pg)"

text \<open>Three records, the last with a class in lower case.\<close>

definition mixed_events :: "json list" where
  "mixed_events =
     [version_record ''GW150914'' ''GWTC-1-confident'' ''BBH'',
      version_record ''GW170817'' ''GWTC-1-confident'' ''BNS'',
      version_record ''GW190425'' ''GWTC-2.1-confident'' ''bbh'']"

text \<open>Records with a signal-to-noise ratio inside the clamp, absent, above, \<^verbatim>\<open>null\<close>,
  below and zero.\<close>

definition snr_samples :: "json list" where
  "snr_samples =
     [JObj [(''snr'', JNum 23.7)], JObj [], JObj [(''snr'', JNum 99)],
      JObj [(''snr'', JNull)], JObj [(''snr'', JNum 3)], JObj [(''snr'', JNum 0)]]"

text \<open>Records with and without an effective spin.\<close>

definition spin_samples :: "json list" where
  "spin_samples =
     [JObj [(''chi_eff'', JNum 0.2)], JObj [(''chi_eff'', JNull)], JObj [],
      JObj [(''chi_eff'', JNum 0)]]"

text \<open>A snapshot as the fetch job writes it: \<^verbatim>\<open>all_events\<close> lists every catalog version,
  \<^verbatim>\<open>events\<close> one record per name, \<^verbatim>\<open>unique_events\<close> their number.\<close>

definition versions :: "json list" where
  "versions =
     [version_record ''GW190521'' ''GWTC-2.1-confident'' ''BBH'',
      version_record ''GW190521'' ''GWTC-3-confident'' ''BBH'',
      version_record ''GW170817'' ''GWTC-1-confident'' ''BNS'']"

definition primaries :: "json list" where
  "primaries =
     [version_record ''GW190521'' ''GWTC-3-confident'' ''BBH'',
      version_record ''GW170817'' ''GWTC-1-confident'' ''BNS'']"

definition fetched_snapshot :: json where
  "fetched_snapshot =
     JObj [(''updated'', JStr ''2025-01-01T00:00:00Z''), (''event_count'', JNum 3),
           (''unique_events'', JNum 2), (''events'', JArr primaries),
           (''all_events'', JArr versions)]"

text \<open>A host for the examples: it reads no text as a number. Every host answers so on a
  text that denotes no number; the examples use it on such values, or where the
  result does not depend on the host.\<close>

definition no_coercion :: "json \<Rightarrow> jsnum" where
  "no_coercion v = None"

text \<open>A parsed object that cannot be converted to a primitive.\<close>

definition unprintable :: json where
  "unprintable = JObj [(''toString'', JNull)]"

text \<open>A record of class BBH whose name is such an object.\<close>

definition unnamed_bbh :: json where
  "unnamed_bbh = JObj [(''source_type'', JStr ''BBH''), (''name'', unprintable)]"

text \<open>Records whose \<^verbatim>\<open>snr\<close> is a text that denotes no number, and such an object.\<close>

definition snr_text :: json where
  "snr_text = JObj [(''snr'', JStr ''abc'')]"

definition snr_object :: json where
  "snr_object = JObj [(''snr'', unprintable)]"


text \<open>A document of the wrong shape that still carries a flat list: \<^verbatim>\<open>events\<close> is a text,
  \<^verbatim>\<open>all_events\<close> an array of one record.\<close>

definition flat_only :: "json list" where
  "flat_only = [version_record ''GW190521'' ''GWTC-3-confident'' ''BBH'']"

definition flat_only_document :: json where
  "flat_only_document = JObj [(''events'', JStr ''not-an-array''), (''all_events'', JArr flat_only)]"

text \<open>The page of the script under \<^verbatim>\<open>docs/\<close> before loading, with procedures that draw
  nothing.\<close>

definition blank_live_page :: "unit live_page" where
  "blank_live_page = \<lparr>live_data = Some JNull, live_list = Some (JArr []),
                      live_dom = [''massPlot'' \<mapsto> Static, ''catalogFilter'' \<mapsto> Static],
                      live_console = []\<rparr>"

definition live_no_op :: "jsval \<Rightarrow> unit live_proc" where
  "live_no_op v pg = (Inr (), pg)"



section \<open>Properties\<close>

subsection \<open>Plumbing\<close>

lemma bindE_simps [simp]: "bindE (Inr v) f = f v" "bindE (Inl e) f = Inl e"
  by (simp_all add: bindE_def)

lemma filterE_callback: "JNull \<notin> set xs \<Longrightarrow> filterE (callback p) xs = Inr (filter p xs)"
  by (induction xs) (auto simp: callback_def)

lemma mapE_callback: "JNull \<notin> set xs \<Longrightarrow> mapE (callback f) xs = Inr (map f xs)"
  by (induction xs) (auto simp: callback_def)

lemma filterE_callback_null: "JNull \<in> set xs \<Longrightarrow> filterE (callback p) xs = Inl TypeError"
  by (induction xs) (auto simp: callback_def bindE_def split: sum.splits)

lemma mapE_callback_null: "JNull \<in> set xs \<Longrightarrow> mapE (callback f) xs = Inl TypeError"
  by (induction xs) (auto simp: callback_def bindE_def split: sum.splits)

lemma mapE_callbackE:
  "JNull \<notin> set xs \<Longrightarrow> \<forall>x\<in>set xs. f x = Inr (g x) \<Longrightarrow>
     mapE (callbackE f) xs = Inr (map g xs)"
  by (induction xs) (auto simp: callbackE_def)

lemma getprop_field: "field k data = Some v \<Longrightarrow> getprop k' (Some data) = Inr (field k' data)"
  by (cases data) simp_all

lemma template_value:
  "list_all (\<lambda>line. printable (snd line)) ls \<Longrightarrow> template ls = Inr ls"
  by (induction ls) (auto simp: interpolate_def)

lemma template_raises:
  "\<not> list_all (\<lambda>line. printable (snd line)) ls \<Longrightarrow> template ls = Inl TypeError"
  by (induction ls) (auto simp: interpolate_def bindE_def split: sum.splits)

subsection \<open>Classification\<close>

lemma classify_examples:
  "classify 36.2 29.1 = BBH" "classify 1.4 1.3 = BNS"
  "classify 5.0 1.4 = NSBH" "classify 3.0 3.0 = BBH"
  by (simp_all add: classify_def NS_THRESHOLD_def)

lemma classify_agrees_off_threshold:
  "m2 \<le> m1 \<Longrightarrow> m1 \<noteq> NS_THRESHOLD \<Longrightarrow> classify m1 m2 = classify_spec m1 m2"
  by (auto simp: classify_def classify_spec_def)

lemma classify_agrees_off_threshold_example:
  "(1.4::real) \<le> 5.0 \<and> (5.0::real) \<noteq> NS_THRESHOLD \<and> classify 5.0 1.4 = classify_spec 5.0 1.4"
proof -
  have a: "(1.4::real) \<le> 5.0" by simp
  have b: "(5.0::real) \<noteq> NS_THRESHOLD" by (simp add: NS_THRESHOLD_def)
  show ?thesis using a b classify_agrees_off_threshold [OF a b] by blast
qed

text \<open>
  Claim C1. For masses \<open>m1 \<ge> m2 \<ge> 0\<close> the classifier is to return BBH when both
  components are at least 3 solar masses, BNS when both are below, and NSBH otherwise.
  A primary of exactly 3 solar masses with a lighter companion passes neither test of the
  documented rule and is labelled BBH, where the stated rule gives NSBH. Off that boundary
  the two agree (\<open>classify_agrees_off_threshold\<close>), as they do on the four examples of
  the claim (\<open>classify_examples\<close>).
\<close>

theorem classify_primary_on_threshold:
  "classify 3.0 1.4 = BBH \<and> classify_spec 3.0 1.4 = NSBH \<and> (3.0::real) \<ge> 1.4 \<and> (1.4::real) \<ge> 0"
  by (simp add: classify_def classify_spec_def NS_THRESHOLD_def)

subsection \<open>Statistics\<close>

lemma updateStats_value:
  "JNull \<notin> set events \<Longrightarrow>
   updateStats events =
     Inr \<lparr>totalCount = length events,
          bbhCount = length (filter (has_type ''BBH'') events),
          nsbhCount = length (filter (has_type ''NSBH'') events),
          bnsCount = length (filter (has_type ''BNS'') events)\<rparr>"
  by (simp add: updateStats_def filterE_callback)

lemma updateStats_total:
  "updateStats evs = Inr st \<Longrightarrow> totalCount st = length evs"
  by (auto simp: updateStats_def bindE_def split: sum.splits)

lemma type_partition:
  "length (filter (has_type ''BBH'') xs) + length (filter (has_type ''NSBH'') xs)
     + length (filter (has_type ''BNS'') xs) + length (filter (\<lambda>e. \<not> known_type e) xs) = length xs"
  by (induction xs) (auto simp: known_type_def has_type_def)

lemma filter_unknown_empty:
  "(length (filter (\<lambda>e. \<not> known_type e) xs) = 0) = (\<forall>e\<in>set xs. known_type e)"
  by (auto simp: filter_empty_conv)

text \<open>
  Claim C4. For every displayed sequence the three per-class counts are the numbers of
  records whose \<^verbatim>\<open>source_type\<close> is exactly the string \<^verbatim>\<open>BBH\<close>, \<^verbatim>\<open>NSBH\<close>, \<^verbatim>\<open>BNS\<close>;
  they add up to the length of the sequence exactly when every record has one of the three
  classes, and a record of any other class counts in the total and in none of the three.
\<close>

theorem updateStats_counts:
  assumes "JNull \<notin> set events"
  shows "\<exists>st. updateStats events = Inr st
     \<and> totalCount st = length events
     \<and> bbhCount st = length (filter (has_type ''BBH'') events)
     \<and> nsbhCount st = length (filter (has_type ''NSBH'') events)
     \<and> bnsCount st = length (filter (has_type ''BNS'') events)
     \<and> (bbhCount st + nsbhCount st + bnsCount st = length events
          \<longleftrightarrow> (\<forall>e\<in>set events. known_type e))
     \<and> bbhCount st + nsbhCount st + bnsCount st
          + length (filter (\<lambda>e. \<not> known_type e) events) = totalCount st"
proof -
  define a where "a = length (filter (has_type ''BBH'') events)"
  define b where "b = length (filter (has_type ''NSBH'') events)"
  define c where "c = length (filter (has_type ''BNS'') events)"
  define u where "u = length (filter (\<lambda>e. \<not> known_type e) events)"
  have p: "a + b + c + u = length events"
    unfolding a_def b_def c_def u_def by (rule type_partition)
  have q: "(u = 0) = (\<forall>e\<in>set events. known_type e)"
    unfolding u_def by (rule filter_unknown_empty)
  have r: "(a + b + c = length events) = (u = 0)"
    using p by arith
  have v: "updateStats events =
      Inr \<lparr>totalCount = length events, bbhCount = a, nsbhCount = b, bnsCount = c\<rparr>"
    unfolding a_def b_def c_def by (rule updateStats_value [OF assms])
  show ?thesis
    unfolding v using p q r
    by (simp add: a_def [symmetric] b_def [symmetric] c_def [symmetric] u_def [symmetric])
qed

theorem updateStats_counts_witness:
  "JNull \<notin> set mixed_events
   \<and> updateStats mixed_events = Inr \<lparr>totalCount = 3, bbhCount = 1, nsbhCount = 0, bnsCount = 1\<rparr>"
proof -
  have h: "JNull \<notin> set mixed_events" by (simp add: mixed_events_def version_record_def)
  from updateStats_counts [OF h] obtain st where st: "updateStats mixed_events = Inr st"
    and f: "totalCount st = length mixed_events"
      "bbhCount st = length (filter (has_type ''BBH'') mixed_events)"
      "nsbhCount st = length (filter (has_type ''NSBH'') mixed_events)"
      "bnsCount st = length (filter (has_type ''BNS'') mixed_events)"
    by blast
  have "st = \<lparr>totalCount = 3, bbhCount = 1, nsbhCount = 0, bnsCount = 1\<rparr>"
    using f by (cases st) (simp add: mixed_events_def version_record_def has_type_def)
  with st h show ?thesis by simp
qed

subsection \<open>Mass scatter plot\<close>

lemma marker_size_value:
  "size_ok e \<Longrightarrow> marker_size coerce e = Inr (marker_value coerce e)"
  by (simp add: size_ok_def marker_size_def marker_value_def to_number_def)

lemma marker_size_raises:
  "\<not> size_ok e \<Longrightarrow> marker_size coerce e = Inl TypeError"
  by (simp add: size_ok_def marker_size_def to_number_def)

lemma hover_text_value:
  "text_ok e \<Longrightarrow> hover_text e = Inr (hover_lines e)"
  by (simp add: text_ok_def hover_text_def template_value)

lemma marker_size_typed:
  "snr_number_or_absent e \<Longrightarrow>
     size_ok e \<and> marker_value coerce e = Some (max 8 (min 25 (snr_or_ten e)))"
  by (auto simp: snr_number_or_absent_def size_ok_def marker_value_def snr_or_ten_def js_or_def
        printable_def split: option.splits json.splits)

lemma createTrace_value:
  assumes "JNull \<notin> set evs" and "list_all plottable evs"
  shows "createTrace coerce evs name color =
     Inr \<lparr>trace_x = map (field ''m1'') evs, trace_y = map (field ''m2'') evs,
          trace_name = name, trace_size = map (marker_value coerce) evs,
          trace_color = color, trace_text = map hover_lines evs\<rparr>"
proof -
  have s: "mapE (callbackE (marker_size coerce)) evs = Inr (map (marker_value coerce) evs)"
    using assms by (intro mapE_callbackE) (auto simp: list_all_iff plottable_def marker_size_value)
  have h: "mapE (callbackE hover_text) evs = Inr (map hover_lines evs)"
    using assms by (intro mapE_callbackE) (auto simp: list_all_iff plottable_def hover_text_value)
  show ?thesis
    by (simp add: createTrace_def mapE_callback [OF assms(1)] s h)
qed

text \<open>
  Claim C9, as the code has it. For every sequence of events none of which is \<^verbatim>\<open>null\<close>,
  whose \<^verbatim>\<open>snr\<close> is a number, \<^verbatim>\<open>null\<close> or absent and whose hover fields convert to text
  without raising, \<^verbatim>\<open>createTrace\<close> returns, and the marker size of each event is
  \<open>max 8 (min 25 s)\<close>, with \<open>s\<close> the \<^verbatim>\<open>snr\<close> when it is a non-zero number and 10 otherwise;
  so every marker size lies between 8 and 25.
\<close>

theorem createTrace_marker_size:
  assumes nn: "JNull \<notin> set events" and typed: "list_all snr_number_or_absent events"
    and texts: "list_all text_ok events"
  shows "\<exists>tr. createTrace coerce events name color = Inr tr
     \<and> trace_size tr = map (\<lambda>e. Some (max 8 (min 25 (snr_or_ten e)))) events
     \<and> (\<forall>s\<in>set (trace_size tr). \<exists>r. s = Some r \<and> 8 \<le> r \<and> r \<le> 25)"
proof -
  have p: "list_all plottable events"
    using typed texts by (auto simp: list_all_iff plottable_def marker_size_typed)
  have m: "map (marker_value coerce) events = map (\<lambda>e. Some (max 8 (min 25 (snr_or_ten e)))) events"
    using typed by (simp add: marker_size_typed list_all_iff)
  show ?thesis
    unfolding createTrace_value [OF nn p] by (auto simp: m)
qed

theorem createTrace_marker_size_witness:
  "JNull \<notin> set snr_samples \<and> list_all snr_number_or_absent snr_samples
   \<and> list_all text_ok snr_samples
   \<and> map_sum id trace_size (createTrace no_coercion snr_samples ''BBH (Binary Black Hole)'' ''#9b59b6'')
       = Inr [Some 23.7, Some 10, Some 25, Some 10, Some 8, Some 10]"
proof -
  have h1: "JNull \<notin> set snr_samples" by (simp add: snr_samples_def)
  have h2: "list_all snr_number_or_absent snr_samples"
    by (simp add: snr_samples_def snr_number_or_absent_def)
  have h3: "list_all text_ok snr_samples"
    by (simp add: snr_samples_def text_ok_def hover_lines_def optional_line_def js_or_def
          printable_def)
  from createTrace_marker_size [OF h1 h2 h3, of no_coercion "''BBH (Binary Black Hole)''" "''#9b59b6''"]
  obtain tr where v: "createTrace no_coercion snr_samples ''BBH (Binary Black Hole)'' ''#9b59b6'' = Inr tr"
    and s: "trace_size tr = map (\<lambda>e. Some (max 8 (min 25 (snr_or_ten e)))) snr_samples"
    by blast
  have "trace_size tr = [Some 23.7, Some 10, Some 25, Some 10, Some 8, Some 10]"
    unfolding s by (simp add: snr_samples_def snr_or_ten_def)
  with v h1 h2 h3 show ?thesis by simp
qed

text \<open>
  Claim C9 as stated, for every event, fails on an \<^verbatim>\<open>snr\<close> that is no number: a text
  that denotes none is sized \<^verbatim>\<open>NaN\<close>, and an object that cannot be converted makes
  \<^verbatim>\<open>createTrace\<close> raise, so that no size is computed at all.
\<close>

theorem marker_size_untyped_snr:
  "snr_text \<noteq> JNull \<and> snr_object \<noteq> JNull
   \<and> map_sum id trace_size (createTrace no_coercion [snr_text] ''BBH (Binary Black Hole)'' ''#9b59b6'')
       = Inr [None]
   \<and> marker_size no_coercion snr_object = Inl TypeError
   \<and> createTrace no_coercion [snr_object] ''BBH (Binary Black Hole)'' ''#9b59b6'' = Inl TypeError"
  by (simp add: snr_text_def snr_object_def unprintable_def createTrace_def callback_def
        callbackE_def marker_size_def to_number_def printable_def js_or_def no_coercion_def
        hover_text_def hover_lines_def optional_line_def interpolate_def)

lemma push_trace_value:
  assumes "JNull \<notin> set events" and "list_all (\<lambda>e. known_type e \<longrightarrow> plottable e) events"
    and "t \<in> {''BBH'', ''NSBH'', ''BNS''}"
  shows "push_trace coerce (filter (has_type t) events) (type_label t) color traces =
     Inr (traces @ class_trace coerce events t color)"
proof -
  have n: "JNull \<notin> set (filter (has_type t) events)" using assms(1) by simp
  have p: "list_all plottable (filter (has_type t) events)"
    using assms(2,3) by (auto simp: list_all_iff known_type_def)
  show ?thesis
    by (simp add: push_trace_def class_trace_def createTrace_value [OF n p] Let_def)
qed

lemma type_labels:
  "type_label ''BBH'' = ''BBH (Binary Black Hole)''"
  "type_label ''NSBH'' = ''NSBH (NS-BH)''"
  "type_label ''BNS'' = ''BNS (Binary NS)''"
  by (simp_all add: type_label_def)

lemma createPlot_value:
  assumes nn: "JNull \<notin> set events"
    and ok: "list_all (\<lambda>e. known_type e \<longrightarrow> plottable e) events"
  shows "createPlot coerce events =
     Inr (class_trace coerce events ''BBH'' ''#9b59b6''
          @ class_trace coerce events ''NSBH'' ''#e67e22''
          @ class_trace coerce events ''BNS'' ''#3498db'')"
  using push_trace_value [OF nn ok, of "''BBH''" coerce]
        push_trace_value [OF nn ok, of "''NSBH''" coerce]
        push_trace_value [OF nn ok, of "''BNS''" coerce]
  by (simp add: createPlot_def filterE_callback [OF nn] type_labels)

lemma known_partition:
  "length (filter (has_type ''BBH'') xs) + length (filter (has_type ''NSBH'') xs)
     + length (filter (has_type ''BNS'') xs) = length (filter known_type xs)"
  by (induction xs) (auto simp: known_type_def has_type_def)

lemma class_trace_points:
  "sum_list (map (\<lambda>tr. length (trace_x tr)) (class_trace coerce events t color))
     = length (filter (has_type t) events)"
  by (simp add: class_trace_def Let_def)

lemma class_trace_named:
  "tr \<in> set (class_trace coerce events t color) \<Longrightarrow>
     trace_name tr = type_label t
     \<and> trace_x tr = map (field ''m1'') (filter (has_type t) events)
     \<and> trace_y tr = map (field ''m2'') (filter (has_type t) events)
     \<and> trace_size tr = map (marker_value coerce) (filter (has_type t) events)
     \<and> trace_text tr = map hover_lines (filter (has_type t) events)"
  by (auto simp: class_trace_def Let_def split: if_splits)

lemma class_trace_present:
  "(\<exists>tr\<in>set (class_trace coerce events t color). trace_name tr = type_label t)
     = (\<exists>e\<in>set events. has_type t e)"
  by (auto simp: class_trace_def Let_def filter_empty_conv)

lemma type_label_inj:
  "t \<in> {''BBH'', ''NSBH'', ''BNS''} \<Longrightarrow> t' \<in> {''BBH'', ''NSBH'', ''BNS''} \<Longrightarrow>
     type_label t = type_label t' \<Longrightarrow> t = t'"
  by (auto simp: type_label_def split: if_splits)

text \<open>
  Claim C8, as the code has it. For every displayed sequence without a \<^verbatim>\<open>null\<close> element in
  which the plotted fields of each event of class BBH, NSBH or BNS convert without raising,
  \<^verbatim>\<open>createPlot\<close> returns and partitions the plotted points by class: the trace of a
  class is present exactly when some displayed event has the class, it holds exactly the
  events of its class in input order, every trace is that of one of the three classes, and
  the plotted points are as many as the events of a known class, so an event of any other
  class is in no trace.
\<close>

theorem createPlot_partition:
  assumes nn: "JNull \<notin> set events"
    and ok: "list_all (\<lambda>e. known_type e \<longrightarrow> plottable e) events"
    and t: "t \<in> {''BBH'', ''NSBH'', ''BNS''}"
  shows "\<exists>traces. createPlot coerce events = Inr traces
     \<and> ((\<exists>tr\<in>set traces. trace_name tr = type_label t) \<longleftrightarrow> (\<exists>e\<in>set events. has_type t e))
     \<and> (\<forall>tr\<in>set traces. trace_name tr = type_label t \<longrightarrow>
           trace_x tr = map (field ''m1'') (filter (has_type t) events)
         \<and> trace_y tr = map (field ''m2'') (filter (has_type t) events)
         \<and> trace_size tr = map (marker_value coerce) (filter (has_type t) events)
         \<and> trace_text tr = map hover_lines (filter (has_type t) events))
     \<and> (\<forall>tr\<in>set traces. trace_name tr \<in> type_label ` {''BBH'', ''NSBH'', ''BNS''})
     \<and> sum_list (map (\<lambda>tr. length (trace_x tr)) traces) = length (filter known_type events)"
proof -
  let ?A = "class_trace coerce events ''BBH'' ''#9b59b6''"
  let ?B = "class_trace coerce events ''NSBH'' ''#e67e22''"
  let ?C = "class_trace coerce events ''BNS'' ''#3498db''"
  let ?T = "?A @ ?B @ ?C"
  have v: "createPlot coerce events = Inr ?T" by (rule createPlot_value [OF nn ok])
  have mem: "\<And>tr. tr \<in> set ?T \<Longrightarrow>
      \<exists>t' c. t' \<in> {''BBH'', ''NSBH'', ''BNS''} \<and> tr \<in> set (class_trace coerce events t' c)"
    by auto
  have own: "\<exists>c. set (class_trace coerce events t c) \<subseteq> set ?T"
    using t by auto
  have present: "(\<exists>tr\<in>set ?T. trace_name tr = type_label t) \<longleftrightarrow> (\<exists>e\<in>set events. has_type t e)"
  proof
    assume "\<exists>tr\<in>set ?T. trace_name tr = type_label t"
    then obtain tr where tr: "tr \<in> set ?T" "trace_name tr = type_label t" by blast
    from mem [OF tr(1)] obtain t' c where t': "t' \<in> {''BBH'', ''NSBH'', ''BNS''}"
      and in': "tr \<in> set (class_trace coerce events t' c)" by blast
    from class_trace_named [OF in'] tr(2) have "type_label t' = type_label t" by simp
    with type_label_inj [OF t' t] have "t' = t" by simp
    with in' class_trace_present [of coerce events t c] class_trace_named [OF in']
    show "\<exists>e\<in>set events. has_type t e" by blast
  next
    assume "\<exists>e\<in>set events. has_type t e"
    then show "\<exists>tr\<in>set ?T. trace_name tr = type_label t"
      using own class_trace_present [of coerce events t] by blast
  qed
  have named: "\<forall>tr\<in>set ?T. trace_name tr = type_label t \<longrightarrow>
           trace_x tr = map (field ''m1'') (filter (has_type t) events)
         \<and> trace_y tr = map (field ''m2'') (filter (has_type t) events)
         \<and> trace_size tr = map (marker_value coerce) (filter (has_type t) events)
         \<and> trace_text tr = map hover_lines (filter (has_type t) events)"
  proof (intro ballI impI)
    fix tr assume tr: "tr \<in> set ?T" "trace_name tr = type_label t"
    from mem [OF tr(1)] obtain t' c where t': "t' \<in> {''BBH'', ''NSBH'', ''BNS''}"
      and in': "tr \<in> set (class_trace coerce events t' c)" by blast
    from class_trace_named [OF in'] tr(2) have "type_label t' = type_label t" by simp
    with type_label_inj [OF t' t] have "t' = t" by simp
    with class_trace_named [OF in']
    show "trace_x tr = map (field ''m1'') (filter (has_type t) events)
         \<and> trace_y tr = map (field ''m2'') (filter (has_type t) events)
         \<and> trace_size tr = map (marker_value coerce) (filter (has_type t) events)
         \<and> trace_text tr = map hover_lines (filter (has_type t) events)" by simp
  qed
  have labels: "\<forall>tr\<in>set ?T. trace_name tr \<in> type_label ` {''BBH'', ''NSBH'', ''BNS''}"
  proof
    fix tr assume "tr \<in> set ?T"
    from mem [OF this] obtain t' c where t': "t' \<in> {''BBH'', ''NSBH'', ''BNS''}"
      and in': "tr \<in> set (class_trace coerce events t' c)" by blast
    from class_trace_named [OF in'] t'
    show "trace_name tr \<in> type_label ` {''BBH'', ''NSBH'', ''BNS''}" by blast
  qed
  have points: "sum_list (map (\<lambda>tr. length (trace_x tr)) ?T) = length (filter known_type events)"
    using known_partition [of events] by (simp add: class_trace_points)
  show ?thesis
    unfolding v using present named labels points by blast
qed

theorem createPlot_partition_witness:
  "JNull \<notin> set mixed_events \<and> list_all (\<lambda>e. known_type e \<longrightarrow> plottable e) mixed_events
   \<and> ''BNS'' \<in> {''BBH'', ''NSBH'', ''BNS''}
   \<and> (\<exists>traces. createPlot no_coercion mixed_events = Inr traces
        \<and> (\<exists>tr\<in>set traces. trace_name tr = ''BNS (Binary NS)''
              \<and> trace_text tr = [hover_lines (version_record ''GW170817'' ''GWTC-1-confident'' ''BNS'')])
        \<and> sum_list (map (\<lambda>tr. length (trace_x tr)) traces) = 2)"
proof -
  have h1: "JNull \<notin> set mixed_events" by (simp add: mixed_events_def version_record_def)
  have h0: "list_all (\<lambda>e. known_type e \<longrightarrow> plottable e) mixed_events"
    by (simp add: mixed_events_def version_record_def plottable_def size_ok_def text_ok_def
          hover_lines_def optional_line_def js_or_def printable_def)
  have h2: "''BNS'' \<in> {''BBH'', ''NSBH'', ''BNS''}" by simp
  have e: "\<exists>e\<in>set mixed_events. has_type ''BNS'' e"
    by (simp add: mixed_events_def version_record_def has_type_def)
  have g: "filter (has_type ''BNS'') mixed_events = [version_record ''GW170817'' ''GWTC-1-confident'' ''BNS'']"
    by (simp add: mixed_events_def version_record_def has_type_def)
  have k: "length (filter known_type mixed_events) = 2"
    by (simp add: mixed_events_def version_record_def has_type_def known_type_def)
  have l: "type_label ''BNS'' = ''BNS (Binary NS)''" by (simp add: type_label_def)
  from createPlot_partition [OF h1 h0 h2, of no_coercion] obtain traces
    where v: "createPlot no_coercion mixed_events = Inr traces"
      and p: "(\<exists>tr\<in>set traces. trace_name tr = type_label ''BNS'') \<longleftrightarrow> (\<exists>e\<in>set mixed_events. has_type ''BNS'' e)"
      and n: "\<forall>tr\<in>set traces. trace_name tr = type_label ''BNS'' \<longrightarrow>
           trace_text tr = map hover_lines (filter (has_type ''BNS'') mixed_events)"
      and s: "sum_list (map (\<lambda>tr. length (trace_x tr)) traces) = length (filter known_type mixed_events)"
    by blast
  from p e obtain tr where tr: "tr \<in> set traces" "trace_name tr = type_label ''BNS''" by blast
  with n have "trace_text tr = map hover_lines (filter (has_type ''BNS'') mixed_events)" by blast
  with tr v s h1 h0 h2 show ?thesis unfolding g k l by auto
qed

text \<open>
  Claim C8 as stated, for every displayed sequence, fails on a record of class BBH whose
  name is an object that cannot be converted to text: \<^verbatim>\<open>createPlot\<close> raises while building
  the hover text, and there is no trace for the class the record has.
\<close>

theorem createPlot_unprintable_name:
  "unnamed_bbh \<noteq> JNull \<and> has_type ''BBH'' unnamed_bbh
   \<and> createPlot no_coercion [unnamed_bbh] = Inl TypeError"
  by (simp add: unnamed_bbh_def unprintable_def has_type_def createPlot_def push_trace_def
        createTrace_def callback_def callbackE_def marker_size_def to_number_def printable_def
        js_or_def hover_text_def hover_lines_def optional_line_def interpolate_def)

text \<open>
  The robust variant plots the same points in the same traces; only the hover text differs.
\<close>

lemma createTrace_robust_value:
  assumes "JNull \<notin> set evs" and "list_all size_ok evs" and "list_all text_ok_robust evs"
  shows "createTrace_robust coerce evs name color =
     Inr \<lparr>trace_x = map (field ''m1'') evs, trace_y = map (field ''m2'') evs,
          trace_name = name, trace_size = map (marker_value coerce) evs,
          trace_color = color, trace_text = map hover_lines_robust evs\<rparr>"
proof -
  have s: "mapE (callbackE (marker_size coerce)) evs = Inr (map (marker_value coerce) evs)"
    using assms by (intro mapE_callbackE) (auto simp: list_all_iff marker_size_value)
  have h: "mapE (callbackE hover_text_robust) evs = Inr (map hover_lines_robust evs)"
    using assms
    by (intro mapE_callbackE) (auto simp: list_all_iff text_ok_robust_def hover_text_robust_def template_value)
  show ?thesis
    by (simp add: createTrace_robust_def mapE_callback [OF assms(1)] s h)
qed

lemma createPlot_robust_same_points:
  assumes nn: "JNull \<notin> set events"
    and ok: "list_all (\<lambda>e. known_type e \<longrightarrow> plottable e \<and> text_ok_robust e) events"
  shows "\<exists>ts ts'. createPlot coerce events = Inr ts
     \<and> createPlot_robust coerce True events = Inr (Some ts')
     \<and> map points ts' = map points ts"
proof -
  have ok': "list_all (\<lambda>e. known_type e \<longrightarrow> plottable e) events"
    using ok by (auto simp: list_all_iff)
  have r: "\<And>t name color. t \<in> {''BBH'', ''NSBH'', ''BNS''} \<Longrightarrow>
      createTrace_robust coerce (filter (has_type t) events) name color =
        Inr \<lparr>trace_x = map (field ''m1'') (filter (has_type t) events),
             trace_y = map (field ''m2'') (filter (has_type t) events),
             trace_name = name, trace_size = map (marker_value coerce) (filter (has_type t) events),
             trace_color = color, trace_text = map hover_lines_robust (filter (has_type t) events)\<rparr>"
    using nn ok
    by (intro createTrace_robust_value) (auto simp: list_all_iff known_type_def plottable_def)
  show ?thesis
    by (simp add: createPlot_value [OF nn ok'] createPlot_robust_def groups_def
          filterE_callback [OF nn] r class_trace_def points_def type_label_def Let_def)
qed

subsection \<open>Catalog filter\<close>



text \<open>
  The earliest variant does the same on the field \<^verbatim>\<open>version\<close> of the snapshot's own list.
\<close>

lemma selectEvents_version_by_tag:
  assumes "selectedCatalog \<noteq> ''all''" and "JNull \<notin> set all"
    and "field ''events'' data = Some (JArr all)"
  shows "selectEvents_version data selectedCatalog =
           Inr (Some (JArr (filter (\<lambda>e. field ''version'' e = Some (JStr selectedCatalog)) all)))"
proof -
  have "data \<noteq> JNull" using assms(3) by auto
  then have "getprop ''events'' (Some data) = Inr (Some (JArr all))"
    using assms(3) by (cases data) simp_all
  then show ?thesis
    using assms(1,2) by (simp add: selectEvents_version_def filterE_callback)
qed

lemma updateFilterInfo_declared:
  "field ''unique_events'' data = Some (JNum u) \<Longrightarrow> u \<noteq> 0 \<Longrightarrow>
     updateFilterInfo data n event_count =
       Inr (if real n = u then ShowingAllUnique (Some (JNum u)) else ShowingOf n (Some (JNum u)))"
  by (auto simp: updateFilterInfo_def js_or_def interpolate_def printable_def)

lemma updateFilterInfo_value:
  "printable (js_or (field ''unique_events'' data) event_count) \<Longrightarrow>
     \<exists>info. updateFilterInfo data n event_count = Inr info"
  by (simp add: updateFilterInfo_def interpolate_def Let_def)

lemma displayEvents_parts:
  assumes "displayEvents coerce data (Some (JArr evs)) = Inr v"
  shows "updateStats evs = Inr (view_stats v)
     \<and> updateFilterInfo data (length evs) (field ''event_count'' data) = Inr (view_info v)"
proof -
  from assms obtain st traces c info where st: "updateStats evs = Inr st"
    and c: "getprop ''event_count'' (Some data) = Inr c"
    and i: "updateFilterInfo data (length evs) c = Inr info"
    and v: "v = \<lparr>view_stats = st, view_traces = traces, view_info = info\<rparr>"
    by (auto simp: displayEvents_def bindE_def split: sum.splits)
  from c have "c = field ''event_count'' data" by (cases data) simp_all
  with st i v show ?thesis by simp
qed

lemma displayEvents_value:
  assumes ev: "field ''events'' data = Some (JArr evs)" and nn: "JNull \<notin> set evs"
    and ok: "list_all (\<lambda>e. known_type e \<longrightarrow> plottable e) evs"
    and u: "printable (unique_count data)"
  shows "\<exists>v. displayEvents coerce data (Some (JArr evs)) = Inr v"
proof -
  from updateFilterInfo_value [of data "field ''event_count'' data" "length evs"] u
  obtain info where "updateFilterInfo data (length evs) (field ''event_count'' data) = Inr info"
    by (auto simp: unique_count_def)
  then show ?thesis
    by (simp add: displayEvents_def updateStats_value [OF nn] createPlot_value [OF nn ok]
          getprop_field [OF ev])
qed

text \<open>
  Claim C3, as the page implements it. For every snapshot with an \<^verbatim>\<open>events\<close> array,
  selecting the sentinel \<^verbatim>\<open>all\<close> hands the display that precomputed array exactly as it
  stands, whatever \<^verbatim>\<open>all_events\<close> holds: the page removes no repeated name. Whenever the
  display of it goes through, the total shown is the length of the array, and when
  \<^verbatim>\<open>unique_events\<close> is a non-zero number the info line counts against it, announcing all
  of them exactly when the length equals it. The display goes through when no element is
  \<^verbatim>\<open>null\<close>, the plotted fields of the events of a known class convert without raising, and
  so does the count the info line prints.
\<close>

theorem select_all_shows_precomputed:
  assumes ev: "field ''events'' data = Some (JArr evs)"
  shows "selectEvents data allEvents ''all'' = Inr (Some (JArr evs))
     \<and> (\<forall>v. displayEvents coerce data (Some (JArr evs)) = Inr v \<longrightarrow>
            totalCount (view_stats v) = length evs
          \<and> (\<forall>u. field ''unique_events'' data = Some (JNum u) \<and> u \<noteq> 0 \<longrightarrow>
                 view_info v = (if real (length evs) = u then ShowingAllUnique (Some (JNum u))
                                else ShowingOf (length evs) (Some (JNum u)))))
     \<and> (JNull \<notin> set evs \<and> list_all (\<lambda>e. known_type e \<longrightarrow> plottable e) evs
          \<and> printable (unique_count data)
        \<longrightarrow> (\<exists>v. displayEvents coerce data (Some (JArr evs)) = Inr v))"
proof -
  have a: "selectEvents data allEvents ''all'' = Inr (Some (JArr evs))"
    by (simp add: selectEvents_def getprop_field [OF ev] ev)
  have b: "\<forall>v. displayEvents coerce data (Some (JArr evs)) = Inr v \<longrightarrow>
            totalCount (view_stats v) = length evs
          \<and> (\<forall>u. field ''unique_events'' data = Some (JNum u) \<and> u \<noteq> 0 \<longrightarrow>
                 view_info v = (if real (length evs) = u then ShowingAllUnique (Some (JNum u))
                                else ShowingOf (length evs) (Some (JNum u))))"
  proof (intro allI impI)
    fix v assume d: "displayEvents coerce data (Some (JArr evs)) = Inr v"
    note p = displayEvents_parts [OF d]
    have t: "totalCount (view_stats v) = length evs"
      using p updateStats_total by blast
    have i: "\<forall>u. field ''unique_events'' data = Some (JNum u) \<and> u \<noteq> 0 \<longrightarrow>
                 view_info v = (if real (length evs) = u then ShowingAllUnique (Some (JNum u))
                                else ShowingOf (length evs) (Some (JNum u)))"
    proof (intro allI impI)
      fix u assume "field ''unique_events'' data = Some (JNum u) \<and> u \<noteq> 0"
      then have "updateFilterInfo data (length evs) (field ''event_count'' data) =
          Inr (if real (length evs) = u then ShowingAllUnique (Some (JNum u))
               else ShowingOf (length evs) (Some (JNum u)))"
        by (simp add: updateFilterInfo_declared)
      with p show "view_info v = (if real (length evs) = u then ShowingAllUnique (Some (JNum u))
                                else ShowingOf (length evs) (Some (JNum u)))" by simp
    qed
    from t i show "totalCount (view_stats v) = length evs
          \<and> (\<forall>u. field ''unique_events'' data = Some (JNum u) \<and> u \<noteq> 0 \<longrightarrow>
                 view_info v = (if real (length evs) = u then ShowingAllUnique (Some (JNum u))
                                else ShowingOf (length evs) (Some (JNum u))))" by blast
  qed
  have c: "JNull \<notin> set evs \<and> list_all (\<lambda>e. known_type e \<longrightarrow> plottable e) evs
          \<and> printable (unique_count data)
        \<longrightarrow> (\<exists>v. displayEvents coerce data (Some (JArr evs)) = Inr v)"
    using displayEvents_value [OF ev] by blast
  show ?thesis using a b c by blast
qed

theorem select_all_shows_precomputed_witness:
  "field ''events'' fetched_snapshot = Some (JArr primaries)
   \<and> selectEvents fetched_snapshot (Some (JArr versions)) ''all'' = Inr (Some (JArr primaries))
   \<and> JNull \<notin> set primaries \<and> printable (unique_count fetched_snapshot)
   \<and> field ''unique_events'' fetched_snapshot = Some (JNum 2)
   \<and> map_sum id (\<lambda>v. (totalCount (view_stats v), view_info v))
        (displayEvents no_coercion fetched_snapshot (Some (JArr primaries)))
       = Inr (2, ShowingAllUnique (Some (JNum 2)))"
proof -
  have h1: "field ''events'' fetched_snapshot = Some (JArr primaries)"
    by (simp add: fetched_snapshot_def)
  have h2: "JNull \<notin> set primaries" by (simp add: primaries_def version_record_def)
  have h3: "list_all (\<lambda>e. known_type e \<longrightarrow> plottable e) primaries"
    by (simp add: primaries_def version_record_def plottable_def size_ok_def text_ok_def
          hover_lines_def optional_line_def js_or_def printable_def)
  have h4: "printable (unique_count fetched_snapshot)"
    by (simp add: fetched_snapshot_def unique_count_def js_or_def printable_def)
  have h5: "field ''unique_events'' fetched_snapshot = Some (JNum 2) \<and> (2::real) \<noteq> 0"
    by (simp add: fetched_snapshot_def)
  have n: "length primaries = 2" by (simp add: primaries_def)
  note t = select_all_shows_precomputed [OF h1, of "Some (JArr versions)" no_coercion]
  from t h2 h3 h4 obtain v
    where v: "displayEvents no_coercion fetched_snapshot (Some (JArr primaries)) = Inr v" by blast
  from t v h5 have "totalCount (view_stats v) = length primaries
      \<and> view_info v = (if real (length primaries) = 2 then ShowingAllUnique (Some (JNum 2))
                       else ShowingOf (length primaries) (Some (JNum 2)))" by blast
  then have "totalCount (view_stats v) = 2 \<and> view_info v = ShowingAllUnique (Some (JNum 2))"
    by (simp add: n)
  with t v h1 h2 h4 h5 show ?thesis by simp
qed

text \<open>
  Claim C3 as stated fails on a snapshot without \<^verbatim>\<open>all_events\<close> whose \<^verbatim>\<open>events\<close> array
  lists a name under two catalog versions: selecting \<^verbatim>\<open>all\<close> displays both records of
  that name, and the info line reads 2 of 1.
\<close>

theorem select_all_repeated_name:
  "allEventsList repeated_name_snapshot
     = Inr (Some (JArr [version_record ''GW190521'' ''GWTC-2.1-confident'' ''BBH'',
                        version_record ''GW190521'' ''GWTC-3-confident'' ''BBH'']))
   \<and> selectEvents repeated_name_snapshot
        (Some (JArr [version_record ''GW190521'' ''GWTC-2.1-confident'' ''BBH'',
                     version_record ''GW190521'' ''GWTC-3-confident'' ''BBH''])) ''all''
     = Inr (Some (JArr [version_record ''GW190521'' ''GWTC-2.1-confident'' ''BBH'',
                        version_record ''GW190521'' ''GWTC-3-confident'' ''BBH'']))
   \<and> \<not> distinct (map (field ''name'')
                    [version_record ''GW190521'' ''GWTC-2.1-confident'' ''BBH'',
                     version_record ''GW190521'' ''GWTC-3-confident'' ''BBH''])
   \<and> field ''unique_events'' repeated_name_snapshot = Some (JNum 1)
   \<and> map_sum id (\<lambda>v. (totalCount (view_stats v), view_info v))
        (displayEvents no_coercion repeated_name_snapshot
           (Some (JArr [version_record ''GW190521'' ''GWTC-2.1-confident'' ''BBH'',
                        version_record ''GW190521'' ''GWTC-3-confident'' ''BBH''])))
     = Inr (2, ShowingOf 2 (Some (JNum 1)))"
  by (simp add: repeated_name_snapshot_def allEventsList_def selectEvents_def version_record_def
        displayEvents_def updateStats_def createPlot_def push_trace_def createTrace_def
        callback_def callbackE_def has_type_def updateFilterInfo_def js_or_def bindE_def
        marker_size_def to_number_def printable_def hover_text_def hover_lines_def
        optional_line_def interpolate_def)

subsection \<open>Effective spin\<close>

lemma spin_values_eq:
  "spin_values events = filter (\<lambda>v. v \<noteq> Some JNull \<and> v \<noteq> None) (map (field ''chi_eff'') events)"
  by (induction events) (auto simp: spin_values_def)

lemma spin_values_eq2:
  "spin_values events =
     map (field ''chi_eff'') (filter (\<lambda>e. field ''chi_eff'' e \<noteq> Some JNull \<and> field ''chi_eff'' e \<noteq> None) events)"
  by (induction events) (auto simp: spin_values_def)

lemma createSpinPlot_value:
  "JNull \<notin> set events \<Longrightarrow>
   createSpinPlot True events =
     Inr (Some (if spin_values events = [] then SpinNotice ''No spin data''
                else SpinHistogram (spin_values events)))"
  by (simp add: createSpinPlot_def mapE_callback spin_values_eq Let_def)

lemma createSpinPlot_selection_value:
  assumes "JNull \<notin> set events"
  shows "createSpinPlot_selection events =
     Inr (if spin_values events = [] then SpinNotice ''No spin data available for current selection''
          else SpinHistogram (spin_values events))"
proof -
  let ?kept = "filter (\<lambda>e. field ''chi_eff'' e \<noteq> Some JNull \<and> field ''chi_eff'' e \<noteq> None) events"
  have k: "JNull \<notin> set ?kept" using assms by simp
  show ?thesis
    unfolding createSpinPlot_selection_def filterE_callback [OF assms] bindE_simps
      mapE_callback [OF k] spin_values_eq2
    by simp
qed

text \<open>
  Claim C10. For every displayed sequence the histogram input of the spin view is exactly
  the \<^verbatim>\<open>chi_eff\<close> values that are neither \<^verbatim>\<open>null\<close> nor absent, in input order; when
  there is none the view is a fixed notice instead of a histogram. Both variants of the
  view compute the same values.
\<close>

theorem createSpinPlot_values:
  assumes "JNull \<notin> set events"
  shows "createSpinPlot True events =
           Inr (Some (if spin_values events = [] then SpinNotice ''No spin data''
                      else SpinHistogram (spin_values events)))
       \<and> createSpinPlot_selection events =
           Inr (if spin_values events = [] then SpinNotice ''No spin data available for current selection''
                else SpinHistogram (spin_values events))"
  using createSpinPlot_value [OF assms] createSpinPlot_selection_value [OF assms] by simp

theorem createSpinPlot_values_witness:
  "JNull \<notin> set spin_samples
   \<and> createSpinPlot True spin_samples = Inr (Some (SpinHistogram [Some (JNum 0.2), Some (JNum 0)]))
   \<and> createSpinPlot_selection spin_samples = Inr (SpinHistogram [Some (JNum 0.2), Some (JNum 0)])
   \<and> JNull \<notin> set mixed_events
   \<and> createSpinPlot True mixed_events = Inr (Some (SpinNotice ''No spin data''))"
proof -
  have h: "JNull \<notin> set spin_samples" by (simp add: spin_samples_def)
  have h': "JNull \<notin> set mixed_events" by (simp add: mixed_events_def version_record_def)
  have s: "spin_values spin_samples = [Some (JNum 0.2), Some (JNum 0)]"
    by (simp add: spin_samples_def spin_values_def)
  have s': "spin_values mixed_events = []"
    by (simp add: mixed_events_def version_record_def spin_values_def)
  show ?thesis
    using createSpinPlot_values [OF h] createSpinPlot_values [OF h'] h h' unfolding s s' by simp
qed

subsection \<open>Cumulative timeline\<close>

lemma accumulate_value:
  "accumulate es n line =
     \<lparr>timeline_dates = timeline_dates line @ map (field ''detection_date'') es,
      timeline_totals = timeline_totals line @ [n + 1 ..< n + length es + 1]\<rparr>"
proof (induction es arbitrary: n line)
  case Nil
  show ?case by simp
next
  case (Cons e es)
  have "[n + 1 ..< n + length (e # es) + 1] = (n + 1) # [n + 1 + 1 ..< n + 1 + length es + 1]"
    by (simp add: upt_rec)
  then show ?case by (simp add: Cons.IH)
qed

lemma js_sort_by_valid:
  "\<forall>x\<in>set xs. key x \<noteq> None \<Longrightarrow>
     js_sort_by key xs = Fixed (sort_key (\<lambda>x. key_value (key x)) xs)"
  by (simp add: js_sort_by_def list_all_iff)

lemma sort_by_date_value:
  "list_all (\<lambda>e. printable (field ''detection_date'' e)) xs \<Longrightarrow>
     sort_by_date date_value xs = Inr (js_sort_by (\<lambda>e. date_value (field ''detection_date'' e)) xs)"
  by (simp add: sort_by_date_def)

text \<open>
  The insertion engine returns what the language fixes, whenever it fixes it.
\<close>

lemma insert_by_valid:
  "key x \<noteq> None \<Longrightarrow> \<forall>y\<in>set ys. key y \<noteq> None \<Longrightarrow>
     insert_by (compare_by key) x ys = insort_key (\<lambda>x. key_value (key x)) x ys"
  by (induction ys) (auto simp: compare_by_def key_value_def)

lemma insertion_sort_valid:
  "\<forall>x\<in>set xs. key x \<noteq> None \<Longrightarrow>
     insertion_sort (compare_by key) xs = sort_key (\<lambda>x. key_value (key x)) xs"
proof (induction xs)
  case Nil
  show ?case by (simp add: insertion_sort_def)
next
  case (Cons x xs)
  then have ih: "insertion_sort (compare_by key) xs = sort_key (\<lambda>x. key_value (key x)) xs" by simp
  have v: "\<forall>y\<in>set (sort_key (\<lambda>x. key_value (key x)) xs). key y \<noteq> None"
    using Cons.prems by simp
  have "insertion_sort (compare_by key) (x # xs) = insert_by (compare_by key) x (insertion_sort (compare_by key) xs)"
    by (simp add: insertion_sort_def)
  also have "\<dots> = insort_key (\<lambda>x. key_value (key x)) x (sort_key (\<lambda>x. key_value (key x)) xs)"
    unfolding ih using insert_by_valid [OF _ v] Cons.prems by simp
  finally show ?case by simp
qed

lemma insertion_sort_conforms:
  assumes "js_sort_by key xs = Fixed ys"
  shows "insertion_sort (compare_by key) xs = ys"
proof (cases "list_all (\<lambda>x. key x \<noteq> None) xs")
  case True
  then show ?thesis
    using assms by (simp add: js_sort_by_def insertion_sort_valid list_all_iff)
next
  case False
  with assms have l: "length xs < 2" and y: "ys = xs"
    by (auto simp: js_sort_by_def split: if_splits)
  from l have "xs = [] \<or> (\<exists>x. xs = [x])"
    by (cases xs; cases "tl xs") auto
  then show ?thesis
    unfolding y by (auto simp: insertion_sort_def)
qed

text \<open>
  The robust variant filters before it sorts. When every date converts and every record
  it keeps has a valid date, the timeline lists the kept records in ascending date order,
  equal dates in input order, against the counts 1 to n, and no \<^verbatim>\<open>Unknown\<close> date is among
  them.
\<close>

lemma createTimelinePlot_sorted:
  assumes nn: "JNull \<notin> set events"
    and conv: "list_all (\<lambda>e. printable (field ''detection_date'' e)) events"
    and valid: "\<forall>e\<in>set events. dated e \<longrightarrow> date_value (field ''detection_date'' e) \<noteq> None"
  shows "\<exists>srt line. createTimelinePlot date_value True events = Inr (Some (Fixed line))
     \<and> timeline_dates line = map (field ''detection_date'') srt
     \<and> timeline_totals line = [1 ..< length srt + 1]
     \<and> set srt = set (filter dated events) \<and> length srt = length (filter dated events)
     \<and> sorted (map (\<lambda>e. key_value (date_value (field ''detection_date'' e))) srt)
     \<and> (\<forall>k. filter (\<lambda>e. key_value (date_value (field ''detection_date'' e)) = k) srt
            = filter (\<lambda>e. key_value (date_value (field ''detection_date'' e)) = k) (filter dated events))
     \<and> Some (JStr ''Unknown'') \<notin> set (timeline_dates line)"
proof -
  let ?key = "\<lambda>e. key_value (date_value (field ''detection_date'' e))"
  let ?kept = "filter dated events"
  let ?srt = "sort_key ?key ?kept"
  have s: "js_sort_by (\<lambda>e. date_value (field ''detection_date'' e)) ?kept = Fixed ?srt"
    using valid by (intro js_sort_by_valid) simp
  have v: "createTimelinePlot date_value True events =
      Inr (Some (Fixed \<lparr>timeline_dates = map (field ''detection_date'') ?srt,
                        timeline_totals = [1 ..< length ?srt + 1]\<rparr>))"
    using conv
    by (simp add: createTimelinePlot_def filterE_callback [OF nn] sort_by_date_value s
          accumulate_value list_all_iff)
  have u: "Some (JStr ''Unknown'') \<notin> set (map (field ''detection_date'') ?srt)"
    by (auto simp: dated_def)
  have st: "\<forall>k. filter (\<lambda>e. ?key e = k) ?srt = filter (\<lambda>e. ?key e = k) ?kept"
    by (simp add: sort_key_stable)
  let ?line = "\<lparr>timeline_dates = map (field ''detection_date'') ?srt,
                timeline_totals = [1 ..< length ?srt + 1]\<rparr>"
  have c1: "timeline_dates ?line = map (field ''detection_date'') ?srt" by simp
  have c2: "timeline_totals ?line = [1 ..< length ?srt + 1]" by simp
  have c3: "set ?srt = set ?kept" by simp
  have c4: "length ?srt = length ?kept" by simp
  have c5: "sorted (map ?key ?srt)" by (rule sorted_sort_key)
  have c6: "Some (JStr ''Unknown'') \<notin> set (timeline_dates ?line)" using u by simp
  show ?thesis
    using v c1 c2 c3 c4 c5 st c6 by blast
qed

text \<open>
  Claim C5. The timeline is to leave out the records dated \<^verbatim>\<open>Unknown\<close>, sort the rest
  ascending by date (ties in input order) and pair them with the counts 1 to n; the dates
  2023-05-01, Unknown, 2020-01-01, 2015-09-14 are to give 2015-09-14, 2020-01-01,
  2023-05-01 with counts 1, 2, 3. The variant that sorts before it skips the undated
  records hands the comparator the \<^verbatim>\<open>NaN\<close> of \<^verbatim>\<open>Unknown\<close>, so on this input the
  language does not fix the order of its result; under the insertion engine its dates come
  out as 2023-05-01, 2015-09-14, 2020-01-01. The robust variant returns the sequence of
  the claim.
\<close>

theorem timeline_example_sort_first:
  "createTimelinePlot_sort_first iso_date_value timeline_example = Inr EngineDefined
   \<and> t_dates (foldl tally_event tally_start
         (insertion_sort (compare_by (\<lambda>e. iso_date_value (field ''detection_date'' e)))
            timeline_example))
       = [Some (JStr ''2023-05-01''), Some (JStr ''2015-09-14''), Some (JStr ''2020-01-01'')]
   \<and> createTimelinePlot iso_date_value True timeline_example
       = Inr (Some (Fixed \<lparr>timeline_dates = [Some (JStr ''2015-09-14''), Some (JStr ''2020-01-01''),
                                              Some (JStr ''2023-05-01'')],
                           timeline_totals = [1, 2, 3]\<rparr>))"
  by (simp add: createTimelinePlot_sort_first_def createTimelinePlot_def timeline_example_def
        detection_def sort_by_date_def printable_def js_sort_by_def dated_def callback_def bindE_def key_value_def
        insertion_sort_def compare_by_def tally_event_def tally_start_def has_type_def
        digit_def days_in_month_def leap_year_def days_from_civil_def)

subsection \<open>Loader\<close>

lemma catalog_shape_check:
  "catalog_shape data = (truthy (Some data) \<and> isArray (field ''events'' data))"
  by (cases data) (auto simp: catalog_shape_def isArray_def split: option.splits json.splits)

text \<open>
  The robust loader. For every parsed document whose top-level shape is not an object
  with an array under \<^verbatim>\<open>events\<close>, its \<^verbatim>\<open>try\<close> block ends in the error
  \<open>InvalidDataFormat\<close> before the global or any element is touched, whatever the display
  procedures are; the loader itself returns normally, having logged the error and put the
  fixed failure notice into the plot container (when the page has one) and changed nothing
  else.
\<close>

theorem loadData_malformed:
  assumes "\<not> catalog_shape data"
  shows "loadData_try P D U (Response True status (Parsed data)) pg = (Inl InvalidDataFormat, pg)
     \<and> loadData P D U (Response True status (Parsed data)) pg = show_failure InvalidDataFormat pg
     \<and> allEventsData (loadData P D U (Response True status (Parsed data)) pg) = allEventsData pg
     \<and> console (loadData P D U (Response True status (Parsed data)) pg) = console pg @ [InvalidDataFormat]
     \<and> (\<forall>i. i \<noteq> ''massPlot'' \<longrightarrow>
           dom (loadData P D U (Response True status (Parsed data)) pg) i = dom pg i)
     \<and> (dom pg ''massPlot'' \<noteq> None \<longrightarrow>
           dom (loadData P D U (Response True status (Parsed data)) pg) ''massPlot''
             = Some (InnerHTML failure_notice))
     \<and> (dom pg ''massPlot'' = None \<longrightarrow>
           dom (loadData P D U (Response True status (Parsed data)) pg) = dom pg)"
proof -
  have t: "loadData_try P D U (Response True status (Parsed data)) pg = (Inl InvalidDataFormat, pg)"
    using assms unfolding catalog_shape_check by (auto simp: loadData_try_def)
  have l: "loadData P D U (Response True status (Parsed data)) pg = show_failure InvalidDataFormat pg"
    by (simp add: loadData_def t)
  show ?thesis unfolding l t by (simp add: show_failure_def)
qed

theorem loadData_malformed_witness:
  "\<not> catalog_shape (JObj [(''events'', JStr ''not-an-array'')])
   \<and> loadData_try no_op no_op no_op (Response True 200 (Parsed (JObj [(''events'', JStr ''not-an-array'')]))) blank_page
       = (Inl InvalidDataFormat, blank_page)
   \<and> dom (loadData no_op no_op no_op (Response True 200 (Parsed (JObj [(''events'', JStr ''not-an-array'')]))) blank_page) ''massPlot''
       = Some (InnerHTML failure_notice)
   \<and> dom (loadData no_op no_op no_op (Response True 200 (Parsed (JObj [(''events'', JStr ''not-an-array'')]))) blank_page) ''totalEvents''
       = Some Static"
proof -
  have h: "\<not> catalog_shape (JObj [(''events'', JStr ''not-an-array'')])"
    by (simp add: catalog_shape_def)
  have m: "dom blank_page ''massPlot'' \<noteq> None" "dom blank_page ''totalEvents'' = Some Static"
    by (simp_all add: blank_page_def)
  have n: "''totalEvents'' \<noteq> ''massPlot''" by simp
  show ?thesis
    using h m n loadData_malformed [OF h, of no_op no_op no_op 200 blank_page] by metis
qed

text \<open>
  The loader of the script under \<^verbatim>\<open>docs/\<close> checks no shape. On every parsed document
  other than \<^verbatim>\<open>null\<close> it stores the document and the flat list and runs the display
  procedures on whatever \<^verbatim>\<open>data.events\<close> is; what these have drawn before one of them
  raises stays on the page under the notice. On a document of the wrong shape that carries
  no \<^verbatim>\<open>all_events\<close> array, the \<^verbatim>\<open>map\<close> that \<^verbatim>\<open>populateCatalogFilter\<close> begins with
  raises before anything is drawn.
\<close>

lemma unchecked_loader_runs_on:
  assumes "data \<noteq> JNull"
  shows "\<exists>flat. allEventsList data = Inr flat
     \<and> loadData_unchecked_try P D U (Response True status (Parsed data)) pg =
         live_then (P (field ''events'' data))
           (live_then (D (field ''events'' data)) (U (field ''updated'' data)))
           (pg\<lparr>live_data := Some data, live_list := flat\<rparr>)"
proof -
  from assms have g: "\<And>k. getprop k (Some data) = Inr (field k data)" by (cases data) simp_all
  show ?thesis
    by (simp add: loadData_unchecked_try_def allEventsList_def g)
qed

lemma unchecked_loader_keeps:
  assumes "loadData_unchecked_try P D U resp pg = (Inl e, pg')"
    and "live_dom pg' ''massPlot'' \<noteq> None"
  shows "loadData_unchecked P D U resp pg =
     (Inr (), pg'\<lparr>live_console := live_console pg' @ [e],
                   live_dom := (live_dom pg')(''massPlot'' \<mapsto> InnerHTML refresh_notice)\<rparr>)"
  using assms by (simp add: loadData_unchecked_def)

lemma as_array_other: "\<not> isArray v \<Longrightarrow> as_array v = Inl TypeError"
  by (cases v rule: as_array.cases) (simp_all add: isArray_def)

lemma unchecked_loader_first_call:
  assumes "\<not> catalog_shape data" and "\<not> isArray (field ''all_events'' data)"
  shows "bindE (allEventsList data) as_array = Inl TypeError"
proof (cases "data = JNull")
  case True
  then show ?thesis by (simp add: allEventsList_def)
next
  case False
  then have g: "\<And>k. getprop k (Some data) = Inr (field k data)" by (cases data) simp_all
  have e: "\<not> isArray (field ''events'' data)"
    using assms(1) unfolding catalog_shape_check by (cases data) (auto simp: isArray_def)
  show ?thesis
    using assms(2) e by (simp add: allEventsList_def g as_array_other)
qed

text \<open>
  Claim C2. For every document whose top-level shape is not an object with an array under
  \<^verbatim>\<open>events\<close>, the loader is to fail with the error for a malformed catalog, show the fixed
  notice and render nothing else. The robust loader does so; the loader of the script under
  \<^verbatim>\<open>docs/\<close> does not on the document whose \<^verbatim>\<open>events\<close> is a text and whose
  \<^verbatim>\<open>all_events\<close> is an array of one record. It stores the document and the flat list and
  runs the display procedures on the text: the \<^verbatim>\<open>map\<close> over the flat list, with which
  \<^verbatim>\<open>populateCatalogFilter\<close> begins, succeeds, so the selector is filled and its handler
  registered before \<^verbatim>\<open>displayEvents\<close> raises a plain \<^verbatim>\<open>TypeError\<close>. The handler then
  stays live: on the tag of the record it draws one event from the malformed document, and
  on \<^verbatim>\<open>all\<close> it raises outside any \<^verbatim>\<open>try\<close>.
\<close>

theorem unchecked_loader_on_flat_only:
  "\<not> catalog_shape flat_only_document
   \<and> loadData_try P D U (Response True status (Parsed flat_only_document)) pg
       = (Inl InvalidDataFormat, pg)
   \<and> loadData_unchecked_try P' D' U' (Response True status (Parsed flat_only_document)) pg'
       = live_then (P' (Some (JStr ''not-an-array'')))
           (live_then (D' (Some (JStr ''not-an-array''))) (U' None))
           (pg'\<lparr>live_data := Some flat_only_document, live_list := Some (JArr flat_only)\<rparr>)
   \<and> mapE (callback (field ''catalog'')) flat_only = Inr [Some (JStr ''GWTC-3-confident'')]
   \<and> displayEvents coerce flat_only_document (Some (JStr ''not-an-array'')) = Inl TypeError
   \<and> map_sum id view_stats
        (on_change coerce flat_only_document (Some (JArr flat_only)) ''GWTC-3-confident'')
       = Inr \<lparr>totalCount = 1, bbhCount = 1, nsbhCount = 0, bnsCount = 0\<rparr>
   \<and> on_change coerce flat_only_document (Some (JArr flat_only)) ''all'' = Inl TypeError"
proof -
  have a: "\<not> catalog_shape flat_only_document"
    by (simp add: flat_only_document_def catalog_shape_def)
  have b: "loadData_try P D U (Response True status (Parsed flat_only_document)) pg
       = (Inl InvalidDataFormat, pg)"
    by (simp add: loadData_try_def flat_only_document_def isArray_def)
  have c: "loadData_unchecked_try P' D' U' (Response True status (Parsed flat_only_document)) pg'
       = live_then (P' (Some (JStr ''not-an-array'')))
           (live_then (D' (Some (JStr ''not-an-array''))) (U' None))
           (pg'\<lparr>live_data := Some flat_only_document, live_list := Some (JArr flat_only)\<rparr>)"
    by (simp add: loadData_unchecked_try_def allEventsList_def flat_only_document_def)
  have d: "mapE (callback (field ''catalog'')) flat_only = Inr [Some (JStr ''GWTC-3-confident'')]"
    by (simp add: flat_only_def version_record_def callback_def)
  have e: "displayEvents coerce flat_only_document (Some (JStr ''not-an-array'')) = Inl TypeError"
    by (simp add: displayEvents_def)
  have f: "map_sum id view_stats
        (on_change coerce flat_only_document (Some (JArr flat_only)) ''GWTC-3-confident'')
       = Inr \<lparr>totalCount = 1, bbhCount = 1, nsbhCount = 0, bnsCount = 0\<rparr>"
    by (simp add: on_change_def selectEvents_def displayEvents_def flat_only_def
          flat_only_document_def version_record_def updateStats_def createPlot_def push_trace_def
          createTrace_def callback_def callbackE_def has_type_def marker_size_def to_number_def
          printable_def js_or_def hover_text_def hover_lines_def optional_line_def
          interpolate_def updateFilterInfo_def)
  have g: "on_change coerce flat_only_document (Some (JArr flat_only)) ''all'' = Inl TypeError"
    by (simp add: on_change_def selectEvents_def displayEvents_def flat_only_document_def)
  show ?thesis using a b c d e f g by blast
qed

theorem unchecked_loader_on_flat_only_witness:
  "\<not> catalog_shape flat_only_document
   \<and> loadData_try no_op no_op no_op (Response True 200 (Parsed flat_only_document)) blank_page
       = (Inl InvalidDataFormat, blank_page)
   \<and> loadData_unchecked_try live_no_op live_no_op live_no_op
         (Response True 200 (Parsed flat_only_document)) blank_live_page
       = live_then (live_no_op (Some (JStr ''not-an-array'')))
           (live_then (live_no_op (Some (JStr ''not-an-array''))) (live_no_op None))
           (blank_live_page\<lparr>live_data := Some flat_only_document,
                              live_list := Some (JArr flat_only)\<rparr>)
   \<and> mapE (callback (field ''catalog'')) flat_only = Inr [Some (JStr ''GWTC-3-confident'')]
   \<and> displayEvents no_coercion flat_only_document (Some (JStr ''not-an-array'')) = Inl TypeError
   \<and> map_sum id view_stats
        (on_change no_coercion flat_only_document (Some (JArr flat_only)) ''GWTC-3-confident'')
       = Inr \<lparr>totalCount = 1, bbhCount = 1, nsbhCount = 0, bnsCount = 0\<rparr>
   \<and> on_change no_coercion flat_only_document (Some (JArr flat_only)) ''all'' = Inl TypeError"
  by (rule unchecked_loader_on_flat_only)

subsection \<open>Totality\<close>




end
